theory Spec2Isabelle
  imports Complex_Main "HOL-Library.Log_Nat"
begin


section \<open>Episode notification dispatcher (\<open>SilenceNotifier\<close>)\<close>

text \<open>
  The dispatcher of the notify package keeps three booleans, one per channel, and a
  cached Graph client, all guarded by one mutex:
  \<^verbatim>\<open>
  type SilenceNotifier struct {
      cfg *config.Config
      mu sync.Mutex
      webhookSent bool
      emailSent   bool
      logSent     bool
      graphClient *GraphClient
  }
  \<close>
  Every access to the four fields happens between \<open>mu.Lock()\<close> and \<open>mu.Unlock()\<close>, so
  each locked region is one atomic step of the model. The goroutines started with
  \<open>go\<close> are returned as a list of tasks, in the order in which they are started.
\<close>

record GraphClient =
  fromAddress :: string

record SilenceNotifier =
  webhookSent :: bool
  emailSent :: bool
  logSent :: bool
  graphClient :: "GraphClient option"

text \<open>
  \<open>audio.SilenceEvent\<close> and \<open>config.Snapshot\<close> are declared in other packages. The event
  is modelled with the four fields \<open>HandleEvent\<close> reads. Of the snapshot, the results of
  the methods \<open>HasWebhook()\<close>, \<open>HasGraph()\<close> and \<open>HasLogPath()\<close> are fields of the model,
  next to the values the senders receive.
\<close>

record SilenceEvent =
  JustEntered :: bool
  DurationMs :: int
  JustRecovered :: bool
  TotalDurationMs :: int

record Snapshot =
  HasWebhook :: bool
  HasGraph :: bool
  HasLogPath :: bool
  WebhookURL :: string
  LogPath :: string
  StationName :: string

text \<open>The six goroutines the dispatcher starts, with the arguments they close over.\<close>

datatype task =
    SendSilenceWebhook Snapshot int
  | SendSilenceEmail Snapshot int
  | LogSilenceStart Snapshot
  | SendRecoveryWebhook Snapshot int
  | SendRecoveryEmail Snapshot int
  | LogSilenceEnd Snapshot int

text \<open>
  \<open>trySend\<close> receives a pointer to one of the three flags (\<open>&n.webhookSent\<close>, ...). The
  pointer is a value of \<open>flag\<close>; \<open>deref\<close> reads through it and \<open>assign\<close> writes.
\<close>

datatype flag = WebhookFlag | EmailFlag | LogFlag

fun deref :: "flag \<Rightarrow> SilenceNotifier \<Rightarrow> bool" where
  "deref WebhookFlag n = webhookSent n"
| "deref EmailFlag n = emailSent n"
| "deref LogFlag n = logSent n"

fun assign :: "flag \<Rightarrow> bool \<Rightarrow> SilenceNotifier \<Rightarrow> SilenceNotifier" where
  "assign WebhookFlag b n = n\<lparr>webhookSent := b\<rparr>"
| "assign EmailFlag b n = n\<lparr>emailSent := b\<rparr>"
| "assign LogFlag b n = n\<lparr>logSent := b\<rparr>"

text \<open>
  \<^verbatim>\<open>
  func (n *SilenceNotifier) trySend(sent *bool, condition bool, sender func()) {
      n.mu.Lock()
      shouldSend := !*sent && condition
      if shouldSend { *sent = true }
      n.mu.Unlock()
      if shouldSend { go sender() }
  }
  \<close>
\<close>

definition trySend ::
  "flag \<Rightarrow> bool \<Rightarrow> task \<Rightarrow> SilenceNotifier \<Rightarrow> SilenceNotifier \<times> task list" where
  "trySend sent condition sender n =
     (let shouldSend = (\<not> deref sent n \<and> condition);
          n' = (if shouldSend then assign sent True n else n)
      in (n', if shouldSend then [sender] else []))"

text \<open>
  \<open>handleSilenceStart\<close> takes the snapshot \<open>n.cfg.Snapshot()\<close> first; the snapshot it
  obtains is the argument \<open>cfg\<close>.
\<close>

definition handleSilenceStart ::
  "Snapshot \<Rightarrow> int \<Rightarrow> SilenceNotifier \<Rightarrow> SilenceNotifier \<times> task list" where
  "handleSilenceStart cfg durationMs n =
     (let (n1, t1) = trySend WebhookFlag (HasWebhook cfg) (SendSilenceWebhook cfg durationMs) n;
          (n2, t2) = trySend EmailFlag (HasGraph cfg) (SendSilenceEmail cfg durationMs) n1;
          (n3, t3) = trySend LogFlag (HasLogPath cfg) (LogSilenceStart cfg) n2
      in (n3, t1 @ t2 @ t3))"

definition handleSilenceEnd ::
  "Snapshot \<Rightarrow> int \<Rightarrow> SilenceNotifier \<Rightarrow> SilenceNotifier \<times> task list" where
  "handleSilenceEnd cfg totalDurationMs n =
     (let shouldSendWebhookRecovery = webhookSent n;
          shouldSendEmailRecovery = emailSent n;
          shouldSendLogRecovery = logSent n;
          n' = n\<lparr>webhookSent := False, emailSent := False, logSent := False\<rparr>
      in (n',
          (if shouldSendWebhookRecovery then [SendRecoveryWebhook cfg totalDurationMs] else []) @
          (if shouldSendEmailRecovery then [SendRecoveryEmail cfg totalDurationMs] else []) @
          (if shouldSendLogRecovery then [LogSilenceEnd cfg totalDurationMs] else [])))"

text \<open>
  One call of \<open>HandleEvent\<close>: the event, the snapshot \<open>handleSilenceStart\<close> would obtain
  and the snapshot \<open>handleSilenceEnd\<close> would obtain (the live configuration may change
  between the two).
\<close>

record delivery =
  event :: SilenceEvent
  cfgAtStart :: Snapshot
  cfgAtEnd :: Snapshot

definition HandleEvent :: "delivery \<Rightarrow> SilenceNotifier \<Rightarrow> SilenceNotifier \<times> task list" where
  "HandleEvent d n =
     (let (n1, t1) = (if JustEntered (event d)
                      then handleSilenceStart (cfgAtStart d) (DurationMs (event d)) n
                      else (n, []));
          (n2, t2) = (if JustRecovered (event d)
                      then handleSilenceEnd (cfgAtEnd d) (TotalDurationMs (event d)) n1
                      else (n1, []))
      in (n2, t1 @ t2))"

definition Reset :: "SilenceNotifier \<Rightarrow> SilenceNotifier" where
  "Reset n = n\<lparr>webhookSent := False, emailSent := False, logSent := False\<rparr>"

definition InvalidateGraphClient :: "SilenceNotifier \<Rightarrow> SilenceNotifier" where
  "InvalidateGraphClient n = n\<lparr>graphClient := None\<rparr>"

text \<open>\<open>NewSilenceNotifier\<close>: every field but \<open>cfg\<close> has its zero value.\<close>

definition NewSilenceNotifier :: SilenceNotifier where
  "NewSilenceNotifier =
     \<lparr>webhookSent = False, emailSent = False, logSent = False, graphClient = None\<rparr>"

text \<open>A sequence of calls of \<open>HandleEvent\<close>, one after the other, and the tasks started.\<close>

fun deliver :: "delivery list \<Rightarrow> SilenceNotifier \<Rightarrow> SilenceNotifier \<times> task list" where
  "deliver [] n = (n, [])"
| "deliver (d # ds) n =
     (let (n1, t1) = HandleEvent d n;
          (n2, t2) = deliver ds n1
      in (n2, t1 @ t2))"

text \<open>The channel a task notifies, for start tasks and for recovery tasks.\<close>

fun startOf :: "task \<Rightarrow> flag option" where
  "startOf (SendSilenceWebhook _ _) = Some WebhookFlag"
| "startOf (SendSilenceEmail _ _) = Some EmailFlag"
| "startOf (LogSilenceStart _) = Some LogFlag"
| "startOf _ = None"

fun recoveryOf :: "task \<Rightarrow> flag option" where
  "recoveryOf (SendRecoveryWebhook _ _) = Some WebhookFlag"
| "recoveryOf (SendRecoveryEmail _ _) = Some EmailFlag"
| "recoveryOf (LogSilenceEnd _ _) = Some LogFlag"
| "recoveryOf _ = None"

definition starts :: "flag \<Rightarrow> task list \<Rightarrow> nat" where
  "starts ch ts = length (filter (\<lambda>t. startOf t = Some ch) ts)"

definition recoveries :: "flag \<Rightarrow> task list \<Rightarrow> nat" where
  "recoveries ch ts = length (filter (\<lambda>t. recoveryOf t = Some ch) ts)"

text \<open>The enabling condition \<open>handleSilenceStart\<close> passes to \<open>trySend\<close> for a channel.\<close>

fun enabled :: "flag \<Rightarrow> Snapshot \<Rightarrow> bool" where
  "enabled WebhookFlag cfg = HasWebhook cfg"
| "enabled EmailFlag cfg = HasGraph cfg"
| "enabled LogFlag cfg = HasLogPath cfg"

text \<open>An event that enters silence and does not end it.\<close>

definition enteredOnly :: "delivery \<Rightarrow> bool" where
  "enteredOnly d = (JustEntered (event d) \<and> \<not> JustRecovered (event d))"

text \<open>A concrete episode: the webhook and the log channel are enabled, mail is not.\<close>

definition exampleSnapshot :: Snapshot where
  "exampleSnapshot =
     \<lparr>HasWebhook = True, HasGraph = False, HasLogPath = True,
      WebhookURL = ''http://hook'', LogPath = ''/var/log/silence.log'',
      StationName = ''ZuidWest''\<rparr>"

definition enteredDelivery :: delivery where
  "enteredDelivery =
     \<lparr>event = \<lparr>JustEntered = True, DurationMs = 15000, JustRecovered = False,
               TotalDurationMs = 0\<rparr>,
      cfgAtStart = exampleSnapshot, cfgAtEnd = exampleSnapshot\<rparr>"

definition recoveredDelivery :: delivery where
  "recoveredDelivery =
     \<lparr>event = \<lparr>JustEntered = False, DurationMs = 0, JustRecovered = True,
               TotalDurationMs = 42000\<rparr>,
      cfgAtStart = exampleSnapshot, cfgAtEnd = exampleSnapshot\<lparr>HasGraph := True\<rparr>\<rparr>"

text \<open>
  Calls of \<open>HandleEvent\<close> that run at the same time interleave at the locked regions of
  \<open>trySend\<close>. \<open>trySends\<close> runs the calls of \<open>trySend\<close> of any number of such calls in
  the order in which they take the lock, and returns the tasks started with their flags.
\<close>

fun trySends ::
  "(flag \<times> bool \<times> task) list \<Rightarrow> SilenceNotifier \<Rightarrow> SilenceNotifier \<times> (flag \<times> task) list" where
  "trySends [] n = (n, [])"
| "trySends ((sent, condition, sender) # ops) n =
     (let (n1, ts) = trySend sent condition sender n;
          (n2, us) = trySends ops n1
      in (n2, map (Pair sent) ts @ us))"

text \<open>The three calls of \<open>trySend\<close> that one call of \<open>handleSilenceStart\<close> makes.\<close>

definition startOps :: "Snapshot \<Rightarrow> int \<Rightarrow> (flag \<times> bool \<times> task) list" where
  "startOps cfg durationMs =
     [(WebhookFlag, HasWebhook cfg, SendSilenceWebhook cfg durationMs),
      (EmailFlag, HasGraph cfg, SendSilenceEmail cfg durationMs),
      (LogFlag, HasLogPath cfg, LogSilenceStart cfg)]"

section \<open>Mail delivery client (\<open>GraphClient\<close>)\<close>

text \<open>
  \<open>types.GraphConfig\<close> is declared in another package; the model has the five string
  fields the notify package reads. A Go string is a sequence of bytes, as \<open>string\<close> is.
\<close>

record GraphConfig =
  TenantID :: string
  ClientID :: string
  ClientSecret :: string
  FromAddress :: string
  Recipients :: string

text \<open>
  The errors of the package are built with \<open>fmt.Errorf\<close>; each format string is one
  constructor, with the values it is applied to. \<open>ErrMaxRetries\<close> wraps \<open>lastErr\<close>,
  which is \<open>nil\<close> (\<open>None\<close>) until an attempt has failed.
\<close>

datatype error =
    ErrNoRecipients
  | ErrNoValidRecipientsAfterFiltering
  | ErrCreateRequest string
  | ErrSendRequest string
  | ErrGraphReturned int string
  | ErrGraphError int string
  | ErrMaxRetries "error option"
  | ErrRequiresCredentials
  | ErrRequiresFromAddress
  | ErrTenantIDRequired
  | ErrClientIDRequired
  | ErrClientSecretRequired
  | ErrFromAddressRequired
  | ErrRecipientsRequired

subsection \<open>\<open>strings.TrimSpace\<close> and \<open>strings.Split\<close>\<close>

text \<open>
  \<open>strings.TrimSpace\<close> removes the leading and the trailing white space of a string,
  where white space is every code point with \<open>unicode.IsSpace\<close>. On the bytes of the
  string these are the UTF-8 encodings below: tab, line feed, vertical tab, form feed,
  carriage return, space, U+0085, U+00A0, U+1680, U+2000 to U+200A, U+2028, U+2029,
  U+202F, U+205F and U+3000.
\<close>

definition spaceRunes :: "string list" where
  "spaceRunes =
     [[CHR 0x09], [CHR 0x0A], [CHR 0x0B], [CHR 0x0C], [CHR 0x0D], [CHR 0x20],
      [CHR 0xC2, CHR 0x85], [CHR 0xC2, CHR 0xA0],
      [CHR 0xE1, CHR 0x9A, CHR 0x80],
      [CHR 0xE2, CHR 0x80, CHR 0x80], [CHR 0xE2, CHR 0x80, CHR 0x81],
      [CHR 0xE2, CHR 0x80, CHR 0x82], [CHR 0xE2, CHR 0x80, CHR 0x83],
      [CHR 0xE2, CHR 0x80, CHR 0x84], [CHR 0xE2, CHR 0x80, CHR 0x85],
      [CHR 0xE2, CHR 0x80, CHR 0x86], [CHR 0xE2, CHR 0x80, CHR 0x87],
      [CHR 0xE2, CHR 0x80, CHR 0x88], [CHR 0xE2, CHR 0x80, CHR 0x89],
      [CHR 0xE2, CHR 0x80, CHR 0x8A],
      [CHR 0xE2, CHR 0x80, CHR 0xA8], [CHR 0xE2, CHR 0x80, CHR 0xA9],
      [CHR 0xE2, CHR 0x80, CHR 0xAF], [CHR 0xE2, CHR 0x81, CHR 0x9F],
      [CHR 0xE3, CHR 0x80, CHR 0x80]]"

text \<open>
  \<open>leading rs s\<close> is the number of bytes of the first sequence of \<open>rs\<close> that \<open>s\<close> starts
  with, and 0 when it starts with none.
\<close>

fun leading :: "string list \<Rightarrow> string \<Rightarrow> nat" where
  "leading [] s = 0"
| "leading (r # rs) s = (if take (length r) s = r then length r else leading rs s)"

function trimLeading :: "string list \<Rightarrow> string \<Rightarrow> string" where
  "trimLeading rs s =
     (if leading rs s = 0 then s else trimLeading rs (drop (leading rs s) s))"
  by pat_completeness auto

definition TrimSpace :: "string \<Rightarrow> string" where
  "TrimSpace s = rev (trimLeading (map rev spaceRunes) (rev (trimLeading spaceRunes s)))"

text \<open>
  \<open>strings.Split(s, ",")\<close>: the substrings between the commas, all of them; the empty
  string gives one empty substring.
\<close>

fun splitComma :: "string \<Rightarrow> string list" where
  "splitComma [] = [[]]"
| "splitComma (c # cs) =
     (if c = CHR '','' then [] # splitComma cs
      else (case splitComma cs of
              [] \<Rightarrow> [[c]]
            | w # ws \<Rightarrow> (c # w) # ws))"

text \<open>
  \<^verbatim>\<open>
  func ParseRecipients(recipients string) []string {
      var result []string
      for _, r := range strings.Split(recipients, ",") {
          if r = strings.TrimSpace(r); r != "" {
              result = append(result, r)
          }
      }
      return result
  }
  \<close>
\<close>

definition ParseRecipients :: "string \<Rightarrow> string list" where
  "ParseRecipients recipients =
     filter (\<lambda>r. r \<noteq> []) (map TrimSpace (splitComma recipients))"

subsection \<open>Configuration checks\<close>

definition ValidateConfig :: "GraphConfig \<Rightarrow> error option" where
  "ValidateConfig cfg =
     (if TenantID cfg = [] then Some ErrTenantIDRequired
      else if ClientID cfg = [] then Some ErrClientIDRequired
      else if ClientSecret cfg = [] then Some ErrClientSecretRequired
      else if FromAddress cfg = [] then Some ErrFromAddressRequired
      else if Recipients cfg = [] then Some ErrRecipientsRequired
      else None)"

definition IsConfigured :: "GraphConfig \<Rightarrow> bool" where
  "IsConfigured cfg =
     (TenantID cfg \<noteq> [] \<and> ClientID cfg \<noteq> [] \<and> ClientSecret cfg \<noteq> [] \<and>
      FromAddress cfg \<noteq> [] \<and> Recipients cfg \<noteq> [])"

definition NewGraphClient :: "GraphConfig \<Rightarrow> error + GraphClient" where
  "NewGraphClient cfg =
     (if TenantID cfg = [] \<or> ClientID cfg = [] \<or> ClientSecret cfg = []
      then Inl ErrRequiresCredentials
      else if FromAddress cfg = [] then Inl ErrRequiresFromAddress
      else Inr \<lparr>fromAddress = FromAddress cfg\<rparr>)"

subsection \<open>\<open>SendMail\<close> and the retry loop\<close>

text \<open>
  The retry settings. A \<open>time.Duration\<close> is a 64-bit count of nanoseconds; the waits
  of the loop stay between one and thirty seconds (lemma \<open>nextWait_bounds\<close>), far from
  the range where the doubling could wrap, so they are integers here.
\<close>

definition maxRetries :: nat where
  "maxRetries = 3"

definition initialRetryWait :: int where
  "initialRetryWait = 1000000000"

definition maxRetryWait :: int where
  "maxRetryWait = 30000000000"

definition graphBaseURL :: string where
  "graphBaseURL = ''https://graph.microsoft.com/v1.0''"

record graphMailRequest =
  Subject :: string
  ContentType :: string
  Content :: string
  ToRecipients :: "string list"

text \<open>
  What the loop meets outside the program. \<open>http.NewRequest\<close> fails on a URL that does
  not parse: \<open>NewRequest url\<close> is its error, if any. \<open>Do payload k\<close> is what the call of
  \<open>c.httpClient.Do\<close> of attempt \<open>k\<close> returns (attempts count from 0): an error of the
  transport, or a response with its status code and the body \<open>io.ReadAll\<close> read.
  \<open>json.Marshal\<close> of a structure of strings does not fail.
\<close>

datatype outcome = TransportError string | Response int string

record network =
  NewRequest :: "string \<Rightarrow> string option"
  Do :: "graphMailRequest \<Rightarrow> nat \<Rightarrow> outcome"

text \<open>
  The result of a send: the error returned (\<open>None\<close> for \<open>nil\<close>), the durations slept in
  order, and the number of calls of \<open>c.httpClient.Do\<close>.
\<close>

record sendResult =
  returned :: "error option"
  slept :: "int list"
  requests :: nat

text \<open>
  The head of one iteration:
  \<^verbatim>\<open>
  if attempt > 0 {
      time.Sleep(retryWait)
      retryWait *= 2
      if retryWait > maxRetryWait { retryWait = maxRetryWait }
  }
  \<close>
\<close>

definition sleepBefore :: "nat \<Rightarrow> int \<Rightarrow> int list \<Rightarrow> int list" where
  "sleepBefore attempt retryWait sl = (if attempt > 0 then sl @ [retryWait] else sl)"

definition nextWait :: "nat \<Rightarrow> int \<Rightarrow> int" where
  "nextWait attempt retryWait =
     (if attempt > 0
      then (if retryWait * 2 > maxRetryWait then maxRetryWait else retryWait * 2)
      else retryWait)"

text \<open>
  The loop \<open>for attempt := 0; attempt <= maxRetries; attempt++\<close> of \<open>sendWithRetry\<close>,
  from the iteration \<open>attempt\<close> on, with the values of \<open>retryWait\<close> and \<open>lastErr\<close> and the
  sleeps so far. After the head, an iteration is
  \<^verbatim>\<open>
  req, err := http.NewRequest(http.MethodPost, url, bytes.NewReader(jsonData))
  if err != nil { return fmt.Errorf("create request: %w", err) }
  resp, err := c.httpClient.Do(req)
  if err != nil { lastErr = fmt.Errorf("send request: %w", err); continue }
  respBody, _ := io.ReadAll(resp.Body)
  switch resp.StatusCode {
  case http.StatusAccepted, http.StatusOK, http.StatusNoContent:
      return nil
  case http.StatusTooManyRequests, http.StatusServiceUnavailable:
      lastErr = fmt.Errorf("graph API returned %d: %s", resp.StatusCode, string(respBody))
      continue
  default:
      return fmt.Errorf("graph API error %d: %s", resp.StatusCode, string(respBody))
  }
  \<close>
  and after the loop \<open>return fmt.Errorf("max retries exceeded: %w", lastErr)\<close>.
\<close>

function sendLoop ::
  "network \<Rightarrow> string \<Rightarrow> graphMailRequest \<Rightarrow> nat \<Rightarrow> int \<Rightarrow> error option \<Rightarrow> int list
     \<Rightarrow> sendResult" where
  "sendLoop net url payload attempt retryWait lastErr sl =
     (if attempt \<le> maxRetries then
        (case NewRequest net url of
           Some e \<Rightarrow>
             \<lparr>returned = Some (ErrCreateRequest e),
              slept = sleepBefore attempt retryWait sl, requests = attempt\<rparr>
         | None \<Rightarrow>
             (case Do net payload attempt of
                TransportError e \<Rightarrow>
                  sendLoop net url payload (attempt + 1) (nextWait attempt retryWait)
                    (Some (ErrSendRequest e)) (sleepBefore attempt retryWait sl)
              | Response code body \<Rightarrow>
                  if code = 202 \<or> code = 200 \<or> code = 204 then
                    \<lparr>returned = None,
                     slept = sleepBefore attempt retryWait sl, requests = attempt + 1\<rparr>
                  else if code = 429 \<or> code = 503 then
                    sendLoop net url payload (attempt + 1) (nextWait attempt retryWait)
                      (Some (ErrGraphReturned code body)) (sleepBefore attempt retryWait sl)
                  else
                    \<lparr>returned = Some (ErrGraphError code body),
                     slept = sleepBefore attempt retryWait sl, requests = attempt + 1\<rparr>))
      else \<lparr>returned = Some (ErrMaxRetries lastErr), slept = sl, requests = attempt\<rparr>)"
  by pat_completeness auto

definition sendWithRetry :: "GraphClient \<Rightarrow> network \<Rightarrow> graphMailRequest \<Rightarrow> sendResult" where
  "sendWithRetry c net payload =
     sendLoop net (graphBaseURL @ ''/users/'' @ fromAddress c @ ''/sendMail'') payload
       0 initialRetryWait None []"

definition SendMail ::
  "GraphClient \<Rightarrow> network \<Rightarrow> string list \<Rightarrow> string \<Rightarrow> string \<Rightarrow> sendResult" where
  "SendMail c net recipients subject body =
     (if length recipients = 0 then
        \<lparr>returned = Some ErrNoRecipients, slept = [], requests = 0\<rparr>
      else
        (let toRecipients = filter (\<lambda>addr. addr \<noteq> []) (map TrimSpace recipients) in
         if length toRecipients = 0 then
           \<lparr>returned = Some ErrNoValidRecipientsAfterFiltering, slept = [], requests = 0\<rparr>
         else
           sendWithRetry c net
             \<lparr>Subject = subject, ContentType = ''Text'', Content = body,
              ToRecipients = toRecipients\<rparr>))"

text \<open>
  An outcome after which the loop goes on: an error of the transport, or a response with
  status 429 or 503; and the value \<open>lastErr\<close> takes then.
\<close>

fun transient :: "outcome \<Rightarrow> bool" where
  "transient (TransportError e) = True"
| "transient (Response code body) = (code = 429 \<or> code = 503)"

fun transientError :: "outcome \<Rightarrow> error" where
  "transientError (TransportError e) = ErrSendRequest e"
| "transientError (Response code body) = ErrGraphReturned code body"

text \<open>An endpoint that answers 503 to every request, and a client for it.\<close>

definition always503 :: network where
  "always503 = \<lparr>NewRequest = (\<lambda>url. None), Do = (\<lambda>payload k. Response 503 ''busy'')\<rparr>"

definition exampleClient :: GraphClient where
  "exampleClient = \<lparr>fromAddress = ''studio@example.org''\<rparr>"

text \<open>
  The request body \<open>SendMail\<close> builds for its arguments, and the URL \<open>sendWithRetry\<close>
  posts it to.
\<close>

definition payloadOf :: "string list \<Rightarrow> string \<Rightarrow> string \<Rightarrow> graphMailRequest" where
  "payloadOf recipients subject body =
     \<lparr>Subject = subject, ContentType = ''Text'', Content = body,
      ToRecipients = filter (\<lambda>addr. addr \<noteq> []) (map TrimSpace recipients)\<rparr>"

definition sendMailURL :: "GraphClient \<Rightarrow> string" where
  "sendMailURL c = graphBaseURL @ ''/users/'' @ fromAddress c @ ''/sendMail''"

text \<open>
  Three more endpoints: one that answers 503, then fails in the transport, then accepts;
  one that answers 503 three times and then accepts; one that answers 400.
\<close>

definition flaky :: network where
  "flaky =
     \<lparr>NewRequest = (\<lambda>url. None),
      Do = (\<lambda>payload k. if k = 0 then Response 503 ''busy''
                          else if k = 1 then TransportError ''timeout''
                          else Response 202 [])\<rparr>"

definition busyThrice :: network where
  "busyThrice =
     \<lparr>NewRequest = (\<lambda>url. None),
      Do = (\<lambda>payload k. if k < 3 then Response 503 ''busy'' else Response 202 [])\<rparr>"

definition badRequest :: network where
  "badRequest =
     \<lparr>NewRequest = (\<lambda>url. None), Do = (\<lambda>payload k. Response 400 ''bad request'')\<rparr>"

text \<open>A configuration whose recipients are a comma and nothing else.\<close>

definition commaConfig :: GraphConfig where
  "commaConfig =
     \<lparr>TenantID = ''tenant'', ClientID = ''client'', ClientSecret = ''secret'',
      FromAddress = ''studio@example.org'', Recipients = '',''\<rparr>"

section \<open>Secret expiry monitor (\<open>SecretExpiryChecker\<close>): one check\<close>

text \<open>
  The repository holds the checker twice: \<open>internal/notify/graph_expiry.go\<close>, and a
  second file of the same package whose \<open>Start\<close> recreates the channels and whose \<open>Stop\<close>
  waits for a check in progress. The two agree on what a check computes, which is
  modelled in this section; where they differ, at \<open>Start\<close>, \<open>Stop\<close> and the frame of
  \<open>check\<close>, is the subject of the next one.

  A \<open>time.Time\<close> is an instant: here the number of nanoseconds since the zero time,
  January 1 of year 1, 00:00:00 UTC, so that \<open>IsZero\<close> is equality with 0 and \<open>Before\<close>
  is the order of the integers. A \<open>time.Duration\<close> is a signed 64-bit number of
  nanoseconds.
\<close>

type_synonym time = int

definition IsZero :: "time \<Rightarrow> bool" where
  "IsZero t = (t = 0)"

definition Before :: "time \<Rightarrow> time \<Rightarrow> bool" where
  "Before t u = (t < u)"

definition maxDuration :: int where
  "maxDuration = 2 ^ 63 - 1"

definition minDuration :: int where
  "minDuration = - (2 ^ 63)"

text \<open>
  \<open>time.Until(t)\<close> is \<open>t.Sub(time.Now())\<close>; \<open>Sub\<close> returns the maximum (or minimum)
  duration when the difference does not fit.
\<close>

definition Sub :: "time \<Rightarrow> time \<Rightarrow> int" where
  "Sub t u =
     (let d = t - u
      in if d > maxDuration then maxDuration else if d < minDuration then minDuration else d)"

subsection \<open>The arithmetic of \<open>float64\<close>\<close>

text \<open>
  \<open>daysLeft\<close> is computed in \<open>float64\<close>. The values are rational numbers; \<open>float64 x\<close>
  is the number with a significand of 53 bits nearest to \<open>x\<close>, ties to the even
  significand, which is what a conversion to \<open>float64\<close> and each operation on \<open>float64\<close>
  values return (the exponent range of the format is not modelled: the values of this
  computation have magnitudes between \<open>2 ^ -42\<close> and \<open>2 ^ 22\<close>, or are zero).
  \<open>ilog2 x\<close> is the exponent of \<open>x > 0\<close>, the integer \<open>e\<close> with \<open>2 ^ e \<le> x < 2 ^ (e + 1)\<close>.
\<close>

definition ilog2 :: "rat \<Rightarrow> int" where
  "ilog2 x =
     (let k = bitlen (fst (quotient_of x)) - bitlen (snd (quotient_of x))
      in if 2 powi k \<le> x then k else k - 1)"

definition roundEven :: "rat \<Rightarrow> int" where
  "roundEven x =
     (let n = \<lfloor>x\<rfloor>; f = x - of_int n
      in if f < 1 / 2 then n else if 1 / 2 < f then n + 1 else if even n then n else n + 1)"

definition float64 :: "rat \<Rightarrow> rat" where
  "float64 x =
     (if x = 0 then 0
      else sgn x * of_int (roundEven (\<bar>x\<bar> * 2 powi (52 - ilog2 \<bar>x\<bar>)))
             / 2 powi (52 - ilog2 \<bar>x\<bar>))"

text \<open>
  The division and the remainder of Go's integers truncate towards zero, and the
  conversion \<open>int(x)\<close> of a \<open>float64\<close> discards the fraction.
\<close>

definition quo :: "int \<Rightarrow> int \<Rightarrow> int" where
  "quo a b = sgn a * sgn b * (\<bar>a\<bar> div \<bar>b\<bar>)"

definition rem :: "int \<Rightarrow> int \<Rightarrow> int" where
  "rem a b = a - b * quo a b"

definition toInt :: "rat \<Rightarrow> int" where
  "toInt x = (if x < 0 then \<lceil>x\<rceil> else \<lfloor>x\<rfloor>)"

text \<open>
  \<^verbatim>\<open>
  func (d Duration) Hours() float64 {
      hour := d / Hour
      nsec := d % Hour
      return float64(hour) + float64(nsec)/(60*60*1e9)
  }
  \<close>
\<close>

definition Hour :: int where
  "Hour = 3600000000000"

definition Hours :: "int \<Rightarrow> rat" where
  "Hours d =
     float64 (float64 (of_int (quo d Hour))
              + float64 (float64 (of_int (rem d Hour)) / 3600000000000))"

definition expiryWarningDays :: int where
  "expiryWarningDays = 30"

text \<open>
  \<^verbatim>\<open>
  daysLeft := int(time.Until(earliest).Hours() / 24)
  if daysLeft < 0 { daysLeft = 0 }
  \<close>
  as a function of the duration \<open>time.Until(earliest)\<close>; \<open>daysQuotient\<close> is the \<open>float64\<close>
  value of \<open>Hours() / 24\<close>.
\<close>

definition daysQuotient :: "int \<Rightarrow> rat" where
  "daysQuotient d = float64 (Hours d / 24)"

definition daysLeftOf :: "int \<Rightarrow> int" where
  "daysLeftOf d = (let daysLeft = toInt (daysQuotient d) in if daysLeft < 0 then 0 else daysLeft)"

subsection \<open>The scan of the credentials\<close>

text \<open>
  \<open>types.SecretExpiryInfo\<close> is declared in another package; these are the four fields
  the checker assigns.
\<close>

record SecretExpiryInfo =
  ExpiresAt :: string
  ExpiresSoon :: bool
  DaysLeft :: int
  Error :: string

definition noInfo :: SecretExpiryInfo where
  "noInfo = \<lparr>ExpiresAt = [], ExpiresSoon = False, DaysLeft = 0, Error = []\<rparr>"

record passwordCredential =
  EndDateTime :: string

text \<open>
  What a check meets outside the program: the token the token source yields (or its
  error), the error of \<open>http.NewRequestWithContext\<close> if any, the answer of the identity
  API to the request for a client id with a bearer token (an error of the transport, or
  the status code and the body), \<open>json.Unmarshal\<close> of a body into the credential records,
  \<open>time.Parse(time.RFC3339, _)\<close>, \<open>Time.Format(time.RFC3339)\<close>, and the two readings of
  the clock, by \<open>time.Until\<close> and for \<open>lastCheck\<close>.
\<close>

record identity =
  Token :: "GraphConfig \<Rightarrow> string + string"
  RequestError :: "string option"
  Get :: "string \<Rightarrow> string \<Rightarrow> string + (int \<times> string)"
  Unmarshal :: "string \<Rightarrow> string + passwordCredential list"
  Parse :: "string \<Rightarrow> time option"
  Format :: "time \<Rightarrow> string"
  Now :: time
  NowAfter :: time

text \<open>
  \<^verbatim>\<open>
  var earliest time.Time
  for _, cred := range appResp.PasswordCredentials {
      if cred.EndDateTime == "" { continue }
      expiry, err := time.Parse(time.RFC3339, cred.EndDateTime)
      if err != nil { continue }
      if earliest.IsZero() || expiry.Before(earliest) { earliest = expiry }
  }
  \<close>
  The loop from a value of \<open>earliest\<close> on; it starts at the zero time.
\<close>

fun scanCredentials :: "(string \<Rightarrow> time option) \<Rightarrow> passwordCredential list \<Rightarrow> time \<Rightarrow> time" where
  "scanCredentials parse [] earliest = earliest"
| "scanCredentials parse (cred # creds) earliest =
     (if EndDateTime cred = [] then scanCredentials parse creds earliest
      else (case parse (EndDateTime cred) of
              None \<Rightarrow> scanCredentials parse creds earliest
            | Some expiry \<Rightarrow>
                if IsZero earliest \<or> Before expiry earliest
                then scanCredentials parse creds expiry
                else scanCredentials parse creds earliest))"

text \<open>The end of \<open>fetchExpiryInfo\<close>, from the decoded records on.\<close>

definition expiryInfoOf :: "identity \<Rightarrow> passwordCredential list \<Rightarrow> SecretExpiryInfo" where
  "expiryInfoOf w creds =
     (let earliest = scanCredentials (Parse w) creds 0
      in if IsZero earliest then noInfo\<lparr>Error := ''no password credentials found''\<rparr>
         else (let daysLeft = daysLeftOf (Sub earliest (Now w))
               in \<lparr>ExpiresAt = Format w earliest,
                   ExpiresSoon = (daysLeft \<le> expiryWarningDays),
                   DaysLeft = daysLeft,
                   Error = []\<rparr>))"

text \<open>The end-dates of the records that are present and parse, in the order of the records.\<close>

fun endDates :: "(string \<Rightarrow> time option) \<Rightarrow> passwordCredential list \<Rightarrow> time list" where
  "endDates parse [] = []"
| "endDates parse (cred # creds) =
     (if EndDateTime cred = [] then endDates parse creds
      else (case parse (EndDateTime cred) of
              None \<Rightarrow> endDates parse creds
            | Some expiry \<Rightarrow> expiry # endDates parse creds))"

subsection \<open>\<open>fetchExpiryInfo\<close> and \<open>check\<close>\<close>

text \<open>
  The data fields of the checker. The cached token source is the configuration it was
  built from. The fields \<open>running\<close>, \<open>checking\<close>, \<open>stopCh\<close> and \<open>doneCh\<close>, which no
  computation of this section reads, are in the next section.
\<close>

record SecretExpiryChecker =
  cfg :: "GraphConfig option"
  tokenSource :: "GraphConfig option"
  cachedInfo :: SecretExpiryInfo
  lastCheck :: time

definition NewSecretExpiryChecker :: "GraphConfig option \<Rightarrow> SecretExpiryChecker" where
  "NewSecretExpiryChecker g =
     \<lparr>cfg = g, tokenSource = None, cachedInfo = noInfo, lastCheck = 0\<rparr>"

definition GetTokenSource :: "GraphConfig \<Rightarrow> string + GraphConfig" where
  "GetTokenSource g =
     (if TenantID g = [] \<or> ClientID g = [] \<or> ClientSecret g = []
      then Inl ''graph API requires tenant_id, client_id, and client_secret''
      else Inr g)"

text \<open>\<open>%d\<close> of \<open>fmt\<close>: an integer in decimal.\<close>

fun decimal :: "nat \<Rightarrow> string" where
  "decimal n =
     (if n < 10 then [''0123456789'' ! n]
      else decimal (n div 10) @ [''0123456789'' ! (n mod 10)])"

definition itoa :: "int \<Rightarrow> string" where
  "itoa i = (if i < 0 then CHR ''-'' # decimal (nat (- i)) else decimal (nat i))"

definition fetchExpiryInfo ::
  "identity \<Rightarrow> GraphConfig \<Rightarrow> SecretExpiryChecker
     \<Rightarrow> SecretExpiryChecker \<times> (string + SecretExpiryInfo)" where
  "fetchExpiryInfo w g c =
     (case (case tokenSource c of None \<Rightarrow> GetTokenSource g | Some ts \<Rightarrow> Inr ts) of
        Inl e \<Rightarrow> (c, Inl (''create token source: '' @ e))
      | Inr ts \<Rightarrow>
          (let c' = c\<lparr>tokenSource := Some ts\<rparr>
           in case Token w ts of
                Inl e \<Rightarrow> (c', Inl (''acquire token: '' @ e))
              | Inr token \<Rightarrow>
                  (case RequestError w of
                     Some e \<Rightarrow> (c', Inl (''create request: '' @ e))
                   | None \<Rightarrow>
                       (case Get w (ClientID g) token of
                          Inl e \<Rightarrow> (c', Inl (''request failed: '' @ e))
                        | Inr (status, body) \<Rightarrow>
                            if status \<noteq> 200
                            then (c', Inl (''API returned '' @ itoa status @ '': '' @ body))
                            else (case Unmarshal w body of
                                    Inl e \<Rightarrow> (c', Inl (''parse response: '' @ e))
                                  | Inr creds \<Rightarrow> (c', Inr (expiryInfoOf w creds)))))))"

definition check :: "identity \<Rightarrow> SecretExpiryChecker \<Rightarrow> SecretExpiryChecker" where
  "check w c =
     (case cfg c of
        None \<Rightarrow>
          c\<lparr>cachedInfo := noInfo\<lparr>Error := ''Graph API not configured''\<rparr>,
            lastCheck := NowAfter w\<rparr>
      | Some g \<Rightarrow>
          if TenantID g = [] \<or> ClientID g = [] \<or> ClientSecret g = []
          then c\<lparr>cachedInfo := noInfo\<lparr>Error := ''Graph API not configured''\<rparr>,
                 lastCheck := NowAfter w\<rparr>
          else (case fetchExpiryInfo w g c of
                  (c', Inl e) \<Rightarrow>
                    c'\<lparr>cachedInfo := noInfo\<lparr>Error := e\<rparr>, lastCheck := NowAfter w\<rparr>
                | (c', Inr info) \<Rightarrow>
                    c'\<lparr>cachedInfo := info, lastCheck := NowAfter w\<rparr>))"

text \<open>
  An identity API for the examples. It answers with the body it is asked to decode
  already split into end-dates at the commas, and its clock reads noon of
  January 1, 2026. \<open>day\<close> is the number of nanoseconds of a day, and \<open>date y m d\<close> the
  instant at which a day of the proleptic Gregorian calendar begins.
\<close>

definition day :: int where
  "day = 86400000000000"

definition daysBefore :: "int \<Rightarrow> int" where
  "daysBefore y = 365 * (y - 1) + (y - 1) div 4 - (y - 1) div 100 + (y - 1) div 400"

definition exampleParse :: "string \<Rightarrow> time option" where
  "exampleParse s =
     (if s = ''0001-01-01T00:00:00Z'' then Some 0
      else if s = ''2026-01-16T12:00:00Z'' then Some ((daysBefore 2026 + 15) * day + day div 2)
      else if s = ''2026-02-15T12:00:00Z'' then Some ((daysBefore 2026 + 45) * day + day div 2)
      else if s = ''2030-01-01T00:00:00Z'' then Some (daysBefore 2030 * day)
      else if s = ''2040-01-01T00:00:00Z'' then Some (daysBefore 2040 * day)
      else None)"

definition exampleIdentity :: "string list \<Rightarrow> identity" where
  "exampleIdentity dates =
     \<lparr>Token = (\<lambda>ts. Inr ''token''),
      RequestError = None,
      Get = (\<lambda>clientID token. Inr (200, ''{...}'')),
      Unmarshal = (\<lambda>body. Inr (map (\<lambda>s. \<lparr>EndDateTime = s\<rparr>) dates)),
      Parse = exampleParse,
      Format = (\<lambda>t. if t = daysBefore 2040 * day then ''2040-01-01T00:00:00Z''
                     else if t = daysBefore 2030 * day then ''2030-01-01T00:00:00Z''
                     else ''...''),
      Now = daysBefore 2026 * day + day div 2,
      NowAfter = daysBefore 2026 * day + day div 2 + 1000000000\<rparr>"

definition exampleConfig :: GraphConfig where
  "exampleConfig =
     \<lparr>TenantID = ''tenant'', ClientID = ''client'', ClientSecret = ''secret'',
      FromAddress = ''studio@example.org'', Recipients = ''ops@example.org''\<rparr>"




section \<open>Secret expiry monitor: \<open>Start\<close>, \<open>Stop\<close> and the background goroutine\<close>

text \<open>
  The two files differ here. In \<open>graph_expiry.go\<close> the constructor makes \<open>stopCh\<close> once,
  \<open>Stop\<close> closes it under the lock and returns, and \<open>check\<close> has no frame:
  \<^verbatim>\<open>
  func (c *SecretExpiryChecker) Stop() {
      c.mu.Lock()
      defer c.mu.Unlock()
      if c.running { close(c.stopCh); c.running = false }
  }
  \<close>
  In the other file \<open>Start\<close> makes \<open>stopCh\<close> and \<open>doneCh\<close> anew, \<open>check\<close> sets \<open>checking\<close>
  and on return clears it and offers a value on \<open>doneCh\<close> without blocking, and \<open>Stop\<close>
  receives from \<open>doneCh\<close> when it saw \<open>checking\<close> set:
  \<^verbatim>\<open>
  func (c *SecretExpiryChecker) Stop() {
      c.mu.Lock()
      if !c.running { c.mu.Unlock(); return }
      close(c.stopCh)
      c.running = false
      checking := c.checking
      doneCh := c.doneCh
      c.mu.Unlock()
      if checking && doneCh != nil { <-doneCh }
  }
  \<close>
  \<open>Start\<close> and \<open>check\<close> of that file (in \<open>graph_expiry.go\<close>, \<open>Start\<close> makes no channel
  and \<open>check\<close> neither touches \<open>checking\<close> nor defers anything):
  \<^verbatim>\<open>
  func (c *SecretExpiryChecker) Start() {
      c.mu.Lock()
      if c.running { c.mu.Unlock(); return }
      c.stopCh = make(chan struct{})
      c.doneCh = make(chan struct{})
      c.running = true
      c.mu.Unlock()
      c.check()
      go func() {
          ticker := time.NewTicker(expiryCheckInterval)
          defer ticker.Stop()
          for {
              select {
              case <-ticker.C: c.check()
              case <-c.stopCh: return
              }
          }
      }()
  }

  func (c *SecretExpiryChecker) check() {
      c.mu.Lock()
      c.checking = true
      cfg := c.cfg
      doneCh := c.doneCh
      c.mu.Unlock()
      defer func() {
          c.mu.Lock()
          c.checking = false
          c.mu.Unlock()
          select {
          case doneCh <- struct{}{}:
          default:
          }
      }()
      ... // the lookup, then under the lock: c.cachedInfo = ...; c.lastCheck = time.Now()
  }
  \<close>
  The model is a transition system over the threads of control. A step of a thread is
  one region between \<open>mu.Lock()\<close> and \<open>mu.Unlock()\<close>, one operation on a channel, or one
  \<open>go\<close> statement; steps of different threads interleave in any order, given by a
  schedule. What a check stores is the subject of the section before; here the store is
  an event of the trace.
\<close>

datatype variant = GraphExpiry | Waiting

type_synonym chan = nat

record lifecycle =
  running :: bool
  isChecking :: bool
  stopCh :: "chan option"
  doneCh :: "chan option"

text \<open>
  The field \<open>checking\<close> of the struct is \<open>isChecking\<close> here.
  Who called \<open>check\<close>: \<open>Start\<close>, the background goroutine, or \<open>UpdateConfig\<close>.
\<close>

datatype caller = ByStart | ByLoop | ByUpdateConfig

text \<open>
  Where a thread is. \<open>StartEntry\<close>, \<open>StopEntry\<close> and \<open>UpdateEntry\<close>: about to enter the
  locked region at the head of the call. \<open>StartSpawn\<close>: at the \<open>go\<close> statement of \<open>Start\<close>.
  \<open>StopReceive ch\<close>: \<open>Stop\<close> has unlocked and is about to receive from \<open>doneCh\<close>;
  \<open>StopWait ch\<close>: it is parked in the receive; \<open>StopWoken\<close>: it has received.
  \<open>LoopEnter\<close>: the goroutine is about to evaluate \<open>c.stopCh\<close> for its \<open>select\<close>;
  \<open>LoopBlocked ch\<close>: it waits for the ticker or for \<open>ch\<close>.
  \<open>CheckEntry\<close>: at the head of \<open>check\<close>; \<open>CheckWrite\<close>: the lookup is under way, the
  locked region that stores \<open>cachedInfo\<close> and \<open>lastCheck\<close> is next; \<open>CheckDefer\<close> and
  \<open>CheckSignal\<close>: the two halves of the deferred function, with the \<open>doneCh\<close> that \<open>check\<close>
  read at its head.
\<close>

datatype pc =
    StartEntry
  | StartSpawn
  | StopEntry
  | StopReceive chan
  | StopWait chan
  | StopWoken
  | UpdateEntry
  | LoopEnter
  | LoopBlocked "chan option"
  | CheckEntry caller
  | CheckWrite caller "chan option"
  | CheckDefer caller "chan option"
  | CheckSignal caller "chan option"
  | Returned
  | Panicked

datatype observation = CacheWrite nat | StopReturned nat

text \<open>The case the \<open>select\<close> of the background goroutine takes.\<close>

datatype choice = Tick | StopCase

record system =
  life :: lifecycle
  closed :: "chan list"
  made :: nat
  threads :: "pc list"
  trace :: "observation list"

text \<open>
  \<open>NewSecretExpiryChecker\<close> with the calls that will be made, each by a thread of its own.
  In \<open>graph_expiry.go\<close> the constructor makes \<open>stopCh\<close>, which is channel 0.
\<close>

definition newSystem :: "variant \<Rightarrow> pc list \<Rightarrow> system" where
  "newSystem v calls =
     \<lparr>life = \<lparr>running = False, isChecking = False,
              stopCh = (case v of GraphExpiry \<Rightarrow> Some 0 | Waiting \<Rightarrow> None),
              doneCh = None\<rparr>,
      closed = [],
      made = (case v of GraphExpiry \<Rightarrow> 1 | Waiting \<Rightarrow> 0),
      threads = calls,
      trace = []\<rparr>"

definition goto :: "nat \<Rightarrow> pc \<Rightarrow> system \<Rightarrow> system" where
  "goto tid p s = s\<lparr>threads := (threads s)[tid := p]\<rparr>"

definition observe :: "observation \<Rightarrow> system \<Rightarrow> system" where
  "observe e s = s\<lparr>trace := trace s @ [e]\<rparr>"

text \<open>Where \<open>check\<close> returns to.\<close>

fun afterCheck :: "caller \<Rightarrow> pc" where
  "afterCheck ByStart = StartSpawn"
| "afterCheck ByLoop = LoopEnter"
| "afterCheck ByUpdateConfig = Returned"

text \<open>The first thread parked in a receive from a channel, if any.\<close>

fun waiter :: "chan \<Rightarrow> pc list \<Rightarrow> nat option" where
  "waiter ch [] = None"
| "waiter ch (p # ps) = (if p = StopWait ch then Some 0 else map_option Suc (waiter ch ps))"

text \<open>
  \<open>close(c.stopCh)\<close> and \<open>c.running = false\<close>, inside the locked region of \<open>Stop\<close>: closing
  a channel that is nil or closed panics, and the assignment is not reached.
\<close>

definition closeStop :: "nat \<Rightarrow> system \<Rightarrow> system + system" where
  "closeStop tid s =
     (case stopCh (life s) of
        None \<Rightarrow> Inl (goto tid Panicked s)
      | Some ch \<Rightarrow>
          if ch \<in> set (closed s) then Inl (goto tid Panicked s)
          else Inr (s\<lparr>closed := ch # closed s, life := (life s)\<lparr>running := False\<rparr>\<rparr>))"

text \<open>
  One step of thread \<open>tid\<close>; \<open>None\<close> when the thread cannot move (it has ended, it is
  parked, there is no such thread, or the program has panicked).
\<close>

definition step :: "variant \<Rightarrow> nat \<Rightarrow> choice \<Rightarrow> system \<Rightarrow> system option" where
  "step v tid sel s =
     (if length (threads s) \<le> tid \<or> Panicked \<in> set (threads s) then None
      else (case threads s ! tid of
        StartEntry \<Rightarrow>
          if running (life s) then Some (goto tid Returned s)
          else (case v of
                  GraphExpiry \<Rightarrow>
                    Some (goto tid (CheckEntry ByStart)
                            (s\<lparr>life := (life s)\<lparr>running := True\<rparr>\<rparr>))
                | Waiting \<Rightarrow>
                    Some (goto tid (CheckEntry ByStart)
                            (s\<lparr>life := (life s)\<lparr>stopCh := Some (made s),
                                                doneCh := Some (made s + 1),
                                                running := True\<rparr>,
                               made := made s + 2\<rparr>)))
      | StartSpawn \<Rightarrow> Some (goto tid Returned (s\<lparr>threads := threads s @ [LoopEnter]\<rparr>))
      | StopEntry \<Rightarrow>
          if \<not> running (life s) then Some (observe (StopReturned tid) (goto tid Returned s))
          else (case closeStop tid s of
                  Inl s' \<Rightarrow> Some s'
                | Inr s' \<Rightarrow>
                    (case v of
                       GraphExpiry \<Rightarrow> Some (observe (StopReturned tid) (goto tid Returned s'))
                     | Waiting \<Rightarrow>
                         (case doneCh (life s') of
                            Some ch \<Rightarrow>
                              if isChecking (life s') then Some (goto tid (StopReceive ch) s')
                              else Some (observe (StopReturned tid) (goto tid Returned s'))
                          | None \<Rightarrow> Some (observe (StopReturned tid) (goto tid Returned s')))))
      | StopReceive ch \<Rightarrow> Some (goto tid (StopWait ch) s)
      | StopWait ch \<Rightarrow> None
      | StopWoken \<Rightarrow> Some (observe (StopReturned tid) (goto tid Returned s))
      | UpdateEntry \<Rightarrow> Some (goto tid (CheckEntry ByUpdateConfig) s)
      | LoopEnter \<Rightarrow> Some (goto tid (LoopBlocked (stopCh (life s))) s)
      | LoopBlocked och \<Rightarrow>
          (case sel of
             Tick \<Rightarrow> Some (goto tid (CheckEntry ByLoop) s)
           | StopCase \<Rightarrow>
               (case och of
                  None \<Rightarrow> None
                | Some ch \<Rightarrow> if ch \<in> set (closed s) then Some (goto tid Returned s) else None))
      | CheckEntry k \<Rightarrow>
          (case v of
             GraphExpiry \<Rightarrow> Some (goto tid (CheckWrite k None) s)
           | Waiting \<Rightarrow>
               Some (goto tid (CheckWrite k (doneCh (life s)))
                       (s\<lparr>life := (life s)\<lparr>isChecking := True\<rparr>\<rparr>)))
      | CheckWrite k d \<Rightarrow>
          (case v of
             GraphExpiry \<Rightarrow> Some (goto tid (afterCheck k) (observe (CacheWrite tid) s))
           | Waiting \<Rightarrow> Some (goto tid (CheckDefer k d) (observe (CacheWrite tid) s)))
      | CheckDefer k d \<Rightarrow>
          Some (goto tid (CheckSignal k d) (s\<lparr>life := (life s)\<lparr>isChecking := False\<rparr>\<rparr>))
      | CheckSignal k d \<Rightarrow>
          (case d of
             None \<Rightarrow> Some (goto tid (afterCheck k) s)
           | Some ch \<Rightarrow>
               (case waiter ch (threads s) of
                  None \<Rightarrow> Some (goto tid (afterCheck k) s)
                | Some r \<Rightarrow> Some (goto tid (afterCheck k) (goto r StopWoken s))))
      | Returned \<Rightarrow> None
      | Panicked \<Rightarrow> None))"

text \<open>A schedule is run step by step; it is refused when a step of it cannot be made.\<close>

fun run :: "variant \<Rightarrow> (nat \<times> choice) list \<Rightarrow> system \<Rightarrow> system option" where
  "run v [] s = Some s"
| "run v ((tid, sel) # sched) s =
     (case step v tid sel s of None \<Rightarrow> None | Some s' \<Rightarrow> run v sched s')"

text \<open>
  A call that is made by thread \<open>tid\<close> and runs alone until it returns: \<open>Start\<close> with its
  first check, and the goroutine it starts up to its \<open>select\<close>.
\<close>

definition startAlone :: "variant \<Rightarrow> nat \<Rightarrow> (nat \<times> choice) list" where
  "startAlone v tid =
     (case v of
        GraphExpiry \<Rightarrow> [(tid, Tick), (tid, Tick), (tid, Tick), (tid, Tick)]
      | Waiting \<Rightarrow>
          [(tid, Tick), (tid, Tick), (tid, Tick), (tid, Tick), (tid, Tick), (tid, Tick)])"

text \<open>
  The channels are in order when every closed channel has been made, and, while the
  checker is running, \<open>stopCh\<close> is a channel that has been made and is not closed.
\<close>

definition channelsOk :: "system \<Rightarrow> bool" where
  "channelsOk s =
     ((\<forall>ch \<in> set (closed s). ch < made s) \<and>
      (running (life s) \<longrightarrow>
         (\<exists>ch. stopCh (life s) = Some ch \<and> ch \<notin> set (closed s) \<and> ch < made s)))"

text \<open>
  The schedules of the examples. A check is in progress in the background goroutine
  (thread 2) when \<open>Stop\<close> is called (thread 1); and two cycles of \<open>Start\<close> and \<open>Stop\<close>, each
  call running alone, the goroutines (threads 4 and 5) taking the stop case as soon as
  they can.
\<close>

definition checkInFlight :: "variant \<Rightarrow> (nat \<times> choice) list" where
  "checkInFlight v = startAlone v 0 @ [(2, Tick), (2, Tick), (2, Tick)]"

definition twoCycles :: "variant \<Rightarrow> (nat \<times> choice) list" where
  "twoCycles v =
     startAlone v 0 @ [(4, Tick), (1, Tick), (4, StopCase)] @
     startAlone v 2 @ [(5, Tick)]"

section \<open>Properties of the dispatcher\<close>

lemma starts_append: "starts ch (xs @ ys) = starts ch xs + starts ch ys"
  by (simp add: starts_def)

lemma recoveries_append: "recoveries ch (xs @ ys) = recoveries ch xs + recoveries ch ys"
  by (simp add: recoveries_def)

lemma handleSilenceStart_deref:
  "deref ch (fst (handleSilenceStart conf ms n)) = (deref ch n \<or> enabled ch conf)"
  by (cases ch) (auto simp: handleSilenceStart_def trySend_def Let_def)

lemma handleSilenceStart_starts:
  "starts ch (snd (handleSilenceStart conf ms n)) =
     (if \<not> deref ch n \<and> enabled ch conf then 1 else 0)"
  by (cases ch) (auto simp: handleSilenceStart_def trySend_def Let_def starts_def)

lemma handleSilenceStart_recoveries:
  "recoveries ch (snd (handleSilenceStart conf ms n)) = 0"
  by (cases ch) (auto simp: handleSilenceStart_def trySend_def Let_def recoveries_def)

lemma handleSilenceStart_graphClient:
  "graphClient (fst (handleSilenceStart conf ms n)) = graphClient n"
  by (auto simp: handleSilenceStart_def trySend_def Let_def)

lemma handleSilenceEnd_deref: "\<not> deref ch (fst (handleSilenceEnd conf ms n))"
  by (cases ch) (auto simp: handleSilenceEnd_def Let_def)

lemma handleSilenceEnd_recoveries:
  "recoveries ch (snd (handleSilenceEnd conf ms n)) = (if deref ch n then 1 else 0)"
  by (cases ch) (auto simp: handleSilenceEnd_def Let_def recoveries_def)

lemma handleSilenceEnd_starts: "starts ch (snd (handleSilenceEnd conf ms n)) = 0"
  by (cases ch) (auto simp: handleSilenceEnd_def Let_def starts_def)

lemma HandleEvent_enteredOnly:
  "enteredOnly d \<Longrightarrow>
     HandleEvent d n = handleSilenceStart (cfgAtStart d) (DurationMs (event d)) n"
  by (simp add: HandleEvent_def enteredOnly_def split: prod.splits)

lemma deliver_entered_deref:
  "list_all enteredOnly ds \<Longrightarrow>
     deref ch (fst (deliver ds n)) = (deref ch n \<or> list_ex (\<lambda>d. enabled ch (cfgAtStart d)) ds)"
proof (induction ds arbitrary: n)
  case Nil
  then show ?case by simp
next
  case (Cons d ds)
  have "deref ch (fst (deliver (d # ds) n)) =
        deref ch (fst (deliver ds (fst (handleSilenceStart (cfgAtStart d) (DurationMs (event d)) n))))"
    using Cons.prems by (simp add: HandleEvent_enteredOnly split_beta)
  also have "\<dots> = (deref ch (fst (handleSilenceStart (cfgAtStart d) (DurationMs (event d)) n))
        \<or> list_ex (\<lambda>d. enabled ch (cfgAtStart d)) ds)"
    using Cons.IH Cons.prems by simp
  finally show ?case
    by (simp add: handleSilenceStart_deref disj_assoc)
qed

lemma deliver_entered_starts:
  "list_all enteredOnly ds \<Longrightarrow>
     starts ch (snd (deliver ds n)) =
       (if \<not> deref ch n \<and> list_ex (\<lambda>d. enabled ch (cfgAtStart d)) ds then 1 else 0)"
proof (induction ds arbitrary: n)
  case Nil
  then show ?case by (simp add: starts_def)
next
  case (Cons d ds)
  let ?h = "handleSilenceStart (cfgAtStart d) (DurationMs (event d)) n"
  have d1: "deref ch (fst ?h) = (deref ch n \<or> enabled ch (cfgAtStart d))"
    by (rule handleSilenceStart_deref)
  have s1: "starts ch (snd ?h) = (if \<not> deref ch n \<and> enabled ch (cfgAtStart d) then 1 else 0)"
    by (rule handleSilenceStart_starts)
  have ih: "starts ch (snd (deliver ds (fst ?h))) =
      (if \<not> deref ch (fst ?h) \<and> list_ex (\<lambda>d. enabled ch (cfgAtStart d)) ds then 1 else 0)"
    using Cons by simp
  have "starts ch (snd (deliver (d # ds) n)) = starts ch (snd ?h) + starts ch (snd (deliver ds (fst ?h)))"
    using Cons.prems by (simp add: HandleEvent_enteredOnly starts_append split_beta)
  then show ?case
    unfolding s1 ih d1 by simp
qed

text \<open>
  C1 (dedup). Let \<open>ds\<close> be any sequence of calls of \<open>HandleEvent\<close> whose events enter
  silence and do not end it (one unresolved episode), delivered one after the other to a
  dispatcher in state \<open>n\<close>. For each channel the number of start notifications
  dispatched is one when the channel's flag was clear in \<open>n\<close> and the channel's enabling
  condition held at one of the events at least, and zero otherwise: never two.
  In a fresh episode every flag is clear, so a channel whose enabling condition holds
  sends exactly one start notification however often the event is repeated. The flag is
  set in the same locked step of \<open>trySend\<close> that decides to send.
\<close>

theorem C1_dedup_one_start_per_channel:
  assumes "list_all enteredOnly ds"
  shows "starts ch (snd (deliver ds n)) =
           (if \<not> deref ch n \<and> list_ex (\<lambda>d. enabled ch (cfgAtStart d)) ds then 1 else 0)
         \<and> deref ch (fst (deliver ds n)) =
           (deref ch n \<or> list_ex (\<lambda>d. enabled ch (cfgAtStart d)) ds)
         \<and> (deref ch n \<longrightarrow> starts ch (snd (deliver ds n)) = 0)"
  using deliver_entered_starts [OF assms, of ch n] deliver_entered_deref [OF assms, of ch n]
  by simp

theorem C1_dedup_witness:
  "list_all enteredOnly [enteredDelivery, enteredDelivery, enteredDelivery]
   \<and> starts WebhookFlag
        (snd (deliver [enteredDelivery, enteredDelivery, enteredDelivery] NewSilenceNotifier)) = 1
   \<and> starts EmailFlag
        (snd (deliver [enteredDelivery, enteredDelivery, enteredDelivery] NewSilenceNotifier)) = 0"
proof -
  have h: "list_all enteredOnly [enteredDelivery, enteredDelivery, enteredDelivery]"
    by (simp add: enteredOnly_def enteredDelivery_def)
  show ?thesis
    using h C1_dedup_one_start_per_channel [OF h, of WebhookFlag NewSilenceNotifier]
      C1_dedup_one_start_per_channel [OF h, of EmailFlag NewSilenceNotifier]
    by (simp add: NewSilenceNotifier_def enteredDelivery_def exampleSnapshot_def)
qed

text \<open>
  The same holds when calls of \<open>HandleEvent\<close> run at the same time. Whatever the order
  in which their calls of \<open>trySend\<close> take the lock, the calls for one channel start one
  task when the flag was clear and the condition of one of them held, and none otherwise.
\<close>

lemma handleSilenceStart_trySends:
  "handleSilenceStart snap ms n =
     (fst (trySends (startOps snap ms) n), map snd (snd (trySends (startOps snap ms) n)))"
proof -
  have "\<And>(f :: flag) (ts :: task list). map (snd \<circ> Pair f) ts = ts"
    by (simp add: comp_def)
  then show ?thesis
    by (simp add: handleSilenceStart_def startOps_def split_beta)
qed

lemma trySend_deref:
  "deref ch (fst (trySend sent condition sender n)) =
     (deref ch n \<or> (sent = ch \<and> condition))"
  by (cases ch; cases sent) (auto simp: trySend_def Let_def)

lemma trySend_tasks:
  "snd (trySend sent condition sender n) =
     (if \<not> deref sent n \<and> condition then [sender] else [])"
  by (simp add: trySend_def Let_def)

lemma trySends_interleaved:
  "length (filter (\<lambda>x. fst x = ch) (snd (trySends ops n))) =
     (if \<not> deref ch n \<and> list_ex (\<lambda>x. fst x = ch \<and> fst (snd x)) ops then 1 else 0)"
proof (induction ops arbitrary: n)
  case Nil
  then show ?case by simp
next
  case (Cons x ops)
  obtain sent condition sender where x: "x = (sent, condition, sender)"
    by (cases x)
  let ?n1 = "fst (trySend sent condition sender n)"
  have d: "deref ch ?n1 = (deref ch n \<or> (sent = ch \<and> condition))"
    by (rule trySend_deref)
  have "length (filter (\<lambda>x. fst x = ch) (snd (trySends (x # ops) n))) =
      (if sent = ch \<and> \<not> deref sent n \<and> condition then 1 else 0)
      + length (filter (\<lambda>x. fst x = ch) (snd (trySends ops ?n1)))"
    unfolding x by (simp add: split_beta trySend_tasks)
  also have "length (filter (\<lambda>x. fst x = ch) (snd (trySends ops ?n1))) =
      (if \<not> deref ch ?n1 \<and> list_ex (\<lambda>x. fst x = ch \<and> fst (snd x)) ops then 1 else 0)"
    by (rule Cons.IH)
  finally show ?case
    unfolding d x by auto
qed

lemma deliver_append:
  "deliver (xs @ ys) n =
     (fst (deliver ys (fst (deliver xs n))),
      snd (deliver xs n) @ snd (deliver ys (fst (deliver xs n))))"
  by (induction xs arbitrary: n) (simp_all add: split_beta)

lemma HandleEvent_deref:
  "JustRecovered (event d) \<Longrightarrow> \<not> deref ch (fst (HandleEvent d n))"
  by (simp add: HandleEvent_def split_beta handleSilenceEnd_deref)

lemma starts_Nil: "starts ch [] = 0"
  by (simp add: starts_def)

lemma recoveries_Nil: "recoveries ch [] = 0"
  by (simp add: recoveries_def)

lemma deliver_entered_recoveries:
  "list_all enteredOnly ds \<Longrightarrow> recoveries ch (snd (deliver ds n)) = 0"
proof (induction ds arbitrary: n)
  case Nil
  then show ?case by (simp add: recoveries_Nil)
next
  case (Cons d ds)
  then show ?case
    by (simp add: HandleEvent_enteredOnly split_beta recoveries_append
        handleSilenceStart_recoveries)
qed

text \<open>
  C2 (pairing). \<open>handleSilenceEnd\<close> dispatches the recovery notification of a channel
  exactly when the channel's flag is set in the state it reads, and leaves the flag
  clear. Over an episode, that is a sequence of events that enter silence followed by an
  event that ends it, delivered to a dispatcher whose flag for the channel is clear at the
  start: the number of recovery notifications of the channel equals the number of its
  start notifications, both are at most one, and the flag is clear for the next episode.
\<close>

theorem C2_recovery_iff_start_sent:
  assumes "list_all enteredOnly ds" and "JustRecovered (event x)" and "\<not> deref ch n"
  shows "recoveries ch (snd (handleSilenceEnd conf ms m)) = (if deref ch m then 1 else 0)
         \<and> \<not> deref ch (fst (handleSilenceEnd conf ms m))
         \<and> recoveries ch (snd (deliver (ds @ [x]) n)) = starts ch (snd (deliver (ds @ [x]) n))
         \<and> starts ch (snd (deliver (ds @ [x]) n)) \<le> 1
         \<and> \<not> deref ch (fst (deliver (ds @ [x]) n))"
proof -
  let ?n1 = "fst (deliver ds n)"
  have r0: "recoveries ch (snd (deliver ds n)) = 0"
    using assms(1) by (rule deliver_entered_recoveries)
  have s0: "starts ch (snd (deliver ds n)) =
      (if list_ex (\<lambda>d. enabled ch (cfgAtStart d)) ds then 1 else 0)"
    using deliver_entered_starts [OF assms(1), of ch n] assms(3) by simp
  have d0: "deref ch ?n1 = list_ex (\<lambda>d. enabled ch (cfgAtStart d)) ds"
    using deliver_entered_deref [OF assms(1), of ch n] assms(3) by simp
  have tasks: "snd (deliver (ds @ [x]) n) = snd (deliver ds n) @ snd (HandleEvent x ?n1)"
    by (simp add: deliver_append split_beta)
  have state: "fst (deliver (ds @ [x]) n) = fst (HandleEvent x ?n1)"
    by (simp add: deliver_append split_beta)
  have rx: "recoveries ch (snd (HandleEvent x ?n1)) =
      (if deref ch ?n1 then 1 else 0) + starts ch (snd (HandleEvent x ?n1))"
    using assms(2)
    by (simp add: HandleEvent_def split_beta recoveries_append starts_append
        handleSilenceEnd_recoveries handleSilenceEnd_starts handleSilenceStart_recoveries
        handleSilenceStart_starts handleSilenceStart_deref starts_Nil recoveries_Nil)
  have sx: "starts ch (snd (HandleEvent x ?n1)) \<le> (if deref ch ?n1 then 0 else 1)"
    using assms(2)
    by (simp add: HandleEvent_def split_beta starts_append
        handleSilenceEnd_starts handleSilenceStart_starts starts_Nil)
  show ?thesis
    using r0 s0 d0 rx sx assms(2)
    by (cases "list_ex (\<lambda>d. enabled ch (cfgAtStart d)) ds")
      (simp_all add: tasks state recoveries_append starts_append handleSilenceEnd_recoveries
        handleSilenceEnd_deref HandleEvent_deref)
qed

theorem C2_recovery_witness:
  "list_all enteredOnly [enteredDelivery, enteredDelivery]
   \<and> JustRecovered (event recoveredDelivery)
   \<and> recoveries WebhookFlag
       (snd (deliver ([enteredDelivery, enteredDelivery] @ [recoveredDelivery]) NewSilenceNotifier)) = 1
   \<and> recoveries EmailFlag
       (snd (deliver ([enteredDelivery, enteredDelivery] @ [recoveredDelivery]) NewSilenceNotifier)) = 0"
proof -
  have h: "list_all enteredOnly [enteredDelivery, enteredDelivery]"
    by (simp add: enteredOnly_def enteredDelivery_def)
  have r: "JustRecovered (event recoveredDelivery)"
    by (simp add: recoveredDelivery_def)
  have w: "\<not> deref WebhookFlag NewSilenceNotifier" and e: "\<not> deref EmailFlag NewSilenceNotifier"
    by (simp_all add: NewSilenceNotifier_def)
  have sw: "starts WebhookFlag (snd (deliver ([enteredDelivery, enteredDelivery] @ [recoveredDelivery]) NewSilenceNotifier)) = 1"
    by (simp add: starts_def HandleEvent_def handleSilenceStart_def handleSilenceEnd_def
        trySend_def NewSilenceNotifier_def enteredDelivery_def recoveredDelivery_def
        exampleSnapshot_def)
  have se: "starts EmailFlag (snd (deliver ([enteredDelivery, enteredDelivery] @ [recoveredDelivery]) NewSilenceNotifier)) = 0"
    by (simp add: starts_def HandleEvent_def handleSilenceStart_def handleSilenceEnd_def
        trySend_def NewSilenceNotifier_def enteredDelivery_def recoveredDelivery_def
        exampleSnapshot_def)
  show ?thesis
    using h r sw se C2_recovery_iff_start_sent [OF h r w] C2_recovery_iff_start_sent [OF h r e]
    by simp
qed

text \<open>
  C10 (frame). \<open>Reset\<close> clears the three flags and leaves the cached Graph client as it
  is; \<open>InvalidateGraphClient\<close> clears the cached Graph client and leaves the three
  flags as they are; the two operations commute.
\<close>

theorem C10_reset_invalidate_disjoint:
  "webhookSent (Reset n) = False \<and> emailSent (Reset n) = False \<and> logSent (Reset n) = False
   \<and> graphClient (Reset n) = graphClient n
   \<and> graphClient (InvalidateGraphClient n) = None
   \<and> webhookSent (InvalidateGraphClient n) = webhookSent n
   \<and> emailSent (InvalidateGraphClient n) = emailSent n
   \<and> logSent (InvalidateGraphClient n) = logSent n
   \<and> Reset (InvalidateGraphClient n) = InvalidateGraphClient (Reset n)"
  by (simp add: Reset_def InvalidateGraphClient_def)

section \<open>Properties of the mail delivery client\<close>

lemma leading_le_length: "leading rs s \<le> length s"
proof (induction rs)
  case Nil
  then show ?case by simp
next
  case (Cons r rs)
  show ?case
  proof (cases "take (length r) s = r")
    case True
    then have "length r = length (take (length r) s)" by simp
    also have "\<dots> \<le> length s" by simp
    finally show ?thesis using True by simp
  next
    case False
    then show ?thesis using Cons by simp
  qed
qed

termination trimLeading
proof (relation "measure (\<lambda>(rs, s). length s)")
  show "wf (measure (\<lambda>(rs, s). length s))" by simp
next
  fix rs :: "string list" and s :: string
  assume "leading rs s \<noteq> 0"
  then show "((rs, drop (leading rs s) s), (rs, s)) \<in> measure (\<lambda>(rs, s). length s)"
    using leading_le_length [of rs s] by simp
qed

termination sendLoop
  by (relation "measure (\<lambda>(net, url, payload, attempt, retryWait, lastErr, sl).
        Suc maxRetries - attempt)") auto

declare trimLeading.simps [simp del]
declare sendLoop.simps [simp del]

lemma nextWait_bounds:
  "initialRetryWait \<le> w \<Longrightarrow> w \<le> maxRetryWait \<Longrightarrow>
     initialRetryWait \<le> nextWait attempt w \<and> nextWait attempt w \<le> maxRetryWait
     \<and> w * 2 < 2 ^ 63"
  by (simp add: nextWait_def initialRetryWait_def maxRetryWait_def)

lemma sendLoop_exhausted:
  "maxRetries < attempt \<Longrightarrow>
     sendLoop net url payload attempt w lastErr sl =
       \<lparr>returned = Some (ErrMaxRetries lastErr), slept = sl, requests = attempt\<rparr>"
  by (subst sendLoop.simps) simp

lemma sendLoop_transient:
  "attempt \<le> maxRetries \<Longrightarrow> NewRequest net url = None \<Longrightarrow>
   transient (Do net payload attempt) \<Longrightarrow>
     sendLoop net url payload attempt w lastErr sl =
       sendLoop net url payload (attempt + 1) (nextWait attempt w)
         (Some (transientError (Do net payload attempt))) (sleepBefore attempt w sl)"
  by (subst sendLoop.simps) (cases "Do net payload attempt"; auto)

lemma sendLoop_success:
  "attempt \<le> maxRetries \<Longrightarrow> NewRequest net url = None \<Longrightarrow>
   Do net payload attempt = Response code body \<Longrightarrow> code = 200 \<or> code = 202 \<or> code = 204 \<Longrightarrow>
     sendLoop net url payload attempt w lastErr sl =
       \<lparr>returned = None, slept = sleepBefore attempt w sl, requests = attempt + 1\<rparr>"
  by (subst sendLoop.simps) auto

lemma sendLoop_terminal:
  "attempt \<le> maxRetries \<Longrightarrow> NewRequest net url = None \<Longrightarrow>
   Do net payload attempt = Response code body \<Longrightarrow>
   code \<noteq> 200 \<Longrightarrow> code \<noteq> 202 \<Longrightarrow> code \<noteq> 204 \<Longrightarrow> code \<noteq> 429 \<Longrightarrow> code \<noteq> 503 \<Longrightarrow>
     sendLoop net url payload attempt w lastErr sl =
       \<lparr>returned = Some (ErrGraphError code body), slept = sleepBefore attempt w sl,
        requests = attempt + 1\<rparr>"
  by (subst sendLoop.simps) simp

lemma sendLoop_requests:
  "attempt \<le> maxRetries \<Longrightarrow> NewRequest net url = None \<Longrightarrow>
     attempt + 1 \<le> requests (sendLoop net url payload attempt w lastErr sl)"
proof (induction net url payload attempt w lastErr sl rule: sendLoop.induct)
  case (1 net url payload attempt retryWait lastErr sl)
  show ?case
  proof (cases "Do net payload attempt")
    case (TransportError e)
    show ?thesis
    proof (cases "attempt + 1 \<le> maxRetries")
      case True
      then have "attempt + 1 + 1 \<le> requests (sendLoop net url payload (attempt + 1)
          (nextWait attempt retryWait) (Some (ErrSendRequest e)) (sleepBefore attempt retryWait sl))"
        using "1.IH"(1) [OF "1.prems"(1) "1.prems"(2) TransportError] "1.prems"(2) by simp
      then show ?thesis
        using "1.prems" TransportError by (subst sendLoop.simps) simp
    next
      case False
      then have "maxRetries < attempt + 1" by simp
      then show ?thesis
        using "1.prems" TransportError
        by (subst sendLoop.simps) (simp add: sendLoop_exhausted)
    qed
  next
    case (Response code body)
    show ?thesis
    proof (cases "code = 429 \<or> code = 503")
      case retry: True
      show ?thesis
      proof (cases "attempt + 1 \<le> maxRetries")
        case True
        have "\<not> (code = 202 \<or> code = 200 \<or> code = 204)" using retry by auto
        then have "attempt + 1 + 1 \<le> requests (sendLoop net url payload (attempt + 1)
            (nextWait attempt retryWait) (Some (ErrGraphReturned code body))
            (sleepBefore attempt retryWait sl))"
          using "1.IH"(2) [OF "1.prems"(1) "1.prems"(2) Response _ retry] True "1.prems"(2)
          by simp
        then show ?thesis
          using "1.prems" Response retry by (subst sendLoop.simps) auto
      next
        case False
        then have "maxRetries < attempt + 1" by simp
        then show ?thesis
          using "1.prems" Response retry
          by (subst sendLoop.simps) (auto simp: sendLoop_exhausted)
      qed
    next
      case False
      then show ?thesis
        using "1.prems" Response by (subst sendLoop.simps) simp
    qed
  qed
qed

text \<open>
  C4 (retry exhaustion). When \<open>SendMail\<close> has at least one non-blank recipient, the
  request can be built, and every call of the endpoint ends in a transient outcome (an
  error of the transport or a response with status 429 or 503), then \<open>SendMail\<close> calls
  the endpoint exactly 4 times, sleeps 1 s, 2 s and 4 s before the three retries (the wait
  starts at \<open>initialRetryWait\<close>, doubles, and is capped at \<open>maxRetryWait\<close> by \<open>nextWait\<close>),
  and returns the error "max retries exceeded" wrapping the error of the last attempt.
  Durations are in nanoseconds.
\<close>

theorem C4_retry_exhaustion:
  assumes "filter (\<lambda>addr. addr \<noteq> []) (map TrimSpace recipients) \<noteq> []"
    and "NewRequest net (sendMailURL c) = None"
    and "\<forall>k. transient (Do net (payloadOf recipients subject body) k)"
  shows "SendMail c net recipients subject body =
           \<lparr>returned = Some (ErrMaxRetries
               (Some (transientError (Do net (payloadOf recipients subject body) 3)))),
            slept = [1000000000, 2000000000, 4000000000],
            requests = 4\<rparr>"
proof -
  let ?p = "payloadOf recipients subject body"
  let ?u = "sendMailURL c"
  have ne: "recipients \<noteq> []" using assms(1) by auto
  have t: "\<And>k. transient (Do net ?p k)" using assms(3) by simp
  have "SendMail c net recipients subject body = sendLoop net ?u ?p 0 initialRetryWait None []"
    using assms(1) ne
    by (simp add: SendMail_def sendWithRetry_def payloadOf_def sendMailURL_def Let_def)
  also have "\<dots> = sendLoop net ?u ?p 1 1000000000
      (Some (transientError (Do net ?p 0))) []"
    using sendLoop_transient [OF _ assms(2) t, of 0 initialRetryWait None "[]"]
    by (simp add: maxRetries_def nextWait_def sleepBefore_def initialRetryWait_def eval_nat_numeral)
  also have "\<dots> = sendLoop net ?u ?p 2 2000000000
      (Some (transientError (Do net ?p 1))) [1000000000]"
    using sendLoop_transient [OF _ assms(2) t, of 1 1000000000
        "Some (transientError (Do net ?p 0))" "[]"]
    by (simp add: maxRetries_def nextWait_def sleepBefore_def maxRetryWait_def eval_nat_numeral)
  also have "\<dots> = sendLoop net ?u ?p 3 4000000000
      (Some (transientError (Do net ?p 2))) [1000000000, 2000000000]"
    using sendLoop_transient [OF _ assms(2) t, of 2 2000000000
        "Some (transientError (Do net ?p 1))" "[1000000000]"]
    by (simp add: maxRetries_def nextWait_def sleepBefore_def maxRetryWait_def eval_nat_numeral)
  also have "\<dots> = sendLoop net ?u ?p 4 8000000000
      (Some (transientError (Do net ?p 3))) [1000000000, 2000000000, 4000000000]"
    using sendLoop_transient [OF _ assms(2) t, of 3 4000000000
        "Some (transientError (Do net ?p 2))" "[1000000000, 2000000000]"]
    by (simp add: maxRetries_def nextWait_def sleepBefore_def maxRetryWait_def eval_nat_numeral)
  also have "\<dots> = \<lparr>returned = Some (ErrMaxRetries (Some (transientError (Do net ?p 3)))),
      slept = [1000000000, 2000000000, 4000000000], requests = 4\<rparr>"
    by (rule sendLoop_exhausted) (simp add: maxRetries_def)
  finally show ?thesis .
qed

theorem C4_retry_exhaustion_witness:
  "SendMail exampleClient always503 [''ops@example.org''] ''subject'' ''body'' =
     \<lparr>returned = Some (ErrMaxRetries (Some (ErrGraphReturned 503 ''busy''))),
      slept = [1000000000, 2000000000, 4000000000],
      requests = 4\<rparr>"
proof -
  have a: "filter (\<lambda>addr. addr \<noteq> []) (map TrimSpace [''ops@example.org'']) \<noteq> []"
    by (simp add: TrimSpace_def trimLeading.simps spaceRunes_def)
  have b: "NewRequest always503 (sendMailURL exampleClient) = None"
    by (simp add: always503_def)
  have c: "\<forall>k. transient (Do always503 (payloadOf [''ops@example.org''] ''subject'' ''body'') k)"
    by (simp add: always503_def)
  show ?thesis
    using C4_retry_exhaustion [OF a b c] by (simp add: always503_def)
qed

lemma example_recipients: "TrimSpace ''ops@example.org'' = ''ops@example.org''"
  by (simp add: TrimSpace_def trimLeading.simps spaceRunes_def)

text \<open>
  C5 (response classification). In an iteration of the loop of \<open>sendWithRetry\<close> whose
  request can be built: a response with status 200, 202 or 204 ends the loop with no
  error; a response with status 429 or 503 and an error of the transport are recorded in
  \<open>lastErr\<close> and the loop goes on to the next iteration, which makes one more request
  when a retry is left (\<open>attempt < maxRetries\<close>) and gives up with the recorded error
  after the last one; a response with any other status ends the loop at once with an
  error that carries the status code and the body.
\<close>

theorem C5_response_classification:
  assumes "attempt \<le> maxRetries" and "NewRequest net url = None"
  shows "(Do net payload attempt = Response code body \<and> (code = 200 \<or> code = 202 \<or> code = 204)
            \<longrightarrow> sendLoop net url payload attempt w lastErr sl =
                  \<lparr>returned = None, slept = sleepBefore attempt w sl, requests = attempt + 1\<rparr>)
       \<and> (Do net payload attempt = Response code body \<and> (code = 429 \<or> code = 503)
            \<longrightarrow> sendLoop net url payload attempt w lastErr sl =
                  sendLoop net url payload (attempt + 1) (nextWait attempt w)
                    (Some (ErrGraphReturned code body)) (sleepBefore attempt w sl))
       \<and> (Do net payload attempt = Response code body
             \<and> code \<noteq> 200 \<and> code \<noteq> 202 \<and> code \<noteq> 204 \<and> code \<noteq> 429 \<and> code \<noteq> 503
            \<longrightarrow> sendLoop net url payload attempt w lastErr sl =
                  \<lparr>returned = Some (ErrGraphError code body),
                   slept = sleepBefore attempt w sl, requests = attempt + 1\<rparr>)
       \<and> (Do net payload attempt = TransportError e
            \<longrightarrow> sendLoop net url payload attempt w lastErr sl =
                  sendLoop net url payload (attempt + 1) (nextWait attempt w)
                    (Some (ErrSendRequest e)) (sleepBefore attempt w sl))
       \<and> (transient (Do net payload attempt) \<and> attempt < maxRetries
            \<longrightarrow> attempt + 2 \<le> requests (sendLoop net url payload attempt w lastErr sl))
       \<and> (transient (Do net payload attempt) \<and> attempt = maxRetries
            \<longrightarrow> sendLoop net url payload attempt w lastErr sl =
                  \<lparr>returned = Some (ErrMaxRetries (Some (transientError (Do net payload attempt)))),
                   slept = sleepBefore attempt w sl, requests = attempt + 1\<rparr>)"
proof (intro conjI impI)
  assume "Do net payload attempt = Response code body \<and> (code = 200 \<or> code = 202 \<or> code = 204)"
  then show "sendLoop net url payload attempt w lastErr sl =
      \<lparr>returned = None, slept = sleepBefore attempt w sl, requests = attempt + 1\<rparr>"
    using sendLoop_success [OF assms] by blast
next
  assume h: "Do net payload attempt = Response code body \<and> (code = 429 \<or> code = 503)"
  then have "transient (Do net payload attempt)" by auto
  then show "sendLoop net url payload attempt w lastErr sl =
      sendLoop net url payload (attempt + 1) (nextWait attempt w)
        (Some (ErrGraphReturned code body)) (sleepBefore attempt w sl)"
    using sendLoop_transient [OF assms, of payload w lastErr sl] h by simp
next
  assume "Do net payload attempt = Response code body
      \<and> code \<noteq> 200 \<and> code \<noteq> 202 \<and> code \<noteq> 204 \<and> code \<noteq> 429 \<and> code \<noteq> 503"
  then show "sendLoop net url payload attempt w lastErr sl =
      \<lparr>returned = Some (ErrGraphError code body),
       slept = sleepBefore attempt w sl, requests = attempt + 1\<rparr>"
    using sendLoop_terminal [OF assms] by blast
next
  assume h: "Do net payload attempt = TransportError e"
  then have "transient (Do net payload attempt)" by simp
  then show "sendLoop net url payload attempt w lastErr sl =
      sendLoop net url payload (attempt + 1) (nextWait attempt w)
        (Some (ErrSendRequest e)) (sleepBefore attempt w sl)"
    using sendLoop_transient [OF assms, of payload w lastErr sl] h by simp
next
  assume h: "transient (Do net payload attempt) \<and> attempt < maxRetries"
  then have le: "attempt + 1 \<le> maxRetries" by simp
  have "attempt + 1 + 1 \<le> requests (sendLoop net url payload (attempt + 1) (nextWait attempt w)
      (Some (transientError (Do net payload attempt))) (sleepBefore attempt w sl))"
    by (rule sendLoop_requests [OF le assms(2)])
  then show "attempt + 2 \<le> requests (sendLoop net url payload attempt w lastErr sl)"
    using sendLoop_transient [OF assms, of payload w lastErr sl] h by simp
next
  assume h: "transient (Do net payload attempt) \<and> attempt = maxRetries"
  then have "maxRetries < attempt + 1" by simp
  then show "sendLoop net url payload attempt w lastErr sl =
      \<lparr>returned = Some (ErrMaxRetries (Some (transientError (Do net payload attempt)))),
       slept = sleepBefore attempt w sl, requests = attempt + 1\<rparr>"
    using sendLoop_transient [OF assms, of payload w lastErr sl] h
    by (auto simp: sendLoop_exhausted)
qed

theorem C5_response_classification_witness:
  "SendMail exampleClient flaky [''ops@example.org''] ''subject'' ''body'' =
     \<lparr>returned = None, slept = [1000000000, 2000000000], requests = 3\<rparr>
   \<and> SendMail exampleClient badRequest [''ops@example.org''] ''subject'' ''body'' =
     \<lparr>returned = Some (ErrGraphError 400 ''bad request''), slept = [], requests = 1\<rparr>
   \<and> SendMail exampleClient busyThrice [''ops@example.org''] ''subject'' ''body'' =
     \<lparr>returned = None, slept = [1000000000, 2000000000, 4000000000], requests = 4\<rparr>"
proof -
  let ?p = "payloadOf [''ops@example.org''] ''subject'' ''body''"
  let ?u = "sendMailURL exampleClient"
  have f: "NewRequest flaky ?u = None" and b: "NewRequest badRequest ?u = None"
    and t: "NewRequest busyThrice ?u = None"
    by (simp_all add: flaky_def badRequest_def busyThrice_def)
  have m0: "(0::nat) \<le> maxRetries" and m1: "(1::nat) \<le> maxRetries"
    and m2: "(2::nat) \<le> maxRetries" and m3: "(3::nat) \<le> maxRetries"
    by (simp_all add: maxRetries_def)
  have send: "\<And>net. SendMail exampleClient net [''ops@example.org''] ''subject'' ''body'' =
      sendLoop net ?u ?p 0 initialRetryWait None []"
    by (simp add: SendMail_def sendWithRetry_def payloadOf_def sendMailURL_def Let_def
        example_recipients)
  have "sendLoop flaky ?u ?p 0 initialRetryWait None [] =
      sendLoop flaky ?u ?p 1 1000000000 (Some (ErrGraphReturned 503 ''busy'')) []"
    using C5_response_classification [OF m0 f, of ?p 503 "''busy''" initialRetryWait None "[]"]
    by (simp add: flaky_def nextWait_def sleepBefore_def initialRetryWait_def)
  also have "\<dots> = sendLoop flaky ?u ?p 2 2000000000 (Some (ErrSendRequest ''timeout''))
      [1000000000]"
    using C5_response_classification [OF m1 f, of ?p _ _ 1000000000
        "Some (ErrGraphReturned 503 ''busy'')" "[]" "''timeout''"]
    by (simp add: flaky_def nextWait_def sleepBefore_def maxRetryWait_def eval_nat_numeral)
  also have "\<dots> = \<lparr>returned = None, slept = [1000000000, 2000000000], requests = 3\<rparr>"
    using C5_response_classification [OF m2 f, of ?p 202 "[]" 2000000000
        "Some (ErrSendRequest ''timeout'')" "[1000000000]"]
    by (simp add: flaky_def nextWait_def sleepBefore_def maxRetryWait_def)
  finally have r1: "SendMail exampleClient flaky [''ops@example.org''] ''subject'' ''body'' =
      \<lparr>returned = None, slept = [1000000000, 2000000000], requests = 3\<rparr>"
    by (simp add: send)
  have r2: "SendMail exampleClient badRequest [''ops@example.org''] ''subject'' ''body'' =
      \<lparr>returned = Some (ErrGraphError 400 ''bad request''), slept = [], requests = 1\<rparr>"
    using C5_response_classification [OF m0 b, of ?p 400 "''bad request''" initialRetryWait
        None "[]"]
    by (simp add: send badRequest_def sleepBefore_def)
  have "sendLoop busyThrice ?u ?p 0 initialRetryWait None [] =
      sendLoop busyThrice ?u ?p 1 1000000000 (Some (ErrGraphReturned 503 ''busy'')) []"
    using C5_response_classification [OF m0 t, of ?p 503 "''busy''" initialRetryWait None "[]"]
    by (simp add: busyThrice_def nextWait_def sleepBefore_def initialRetryWait_def)
  also have "\<dots> = sendLoop busyThrice ?u ?p 2 2000000000
      (Some (ErrGraphReturned 503 ''busy'')) [1000000000]"
    using C5_response_classification [OF m1 t, of ?p 503 "''busy''" 1000000000
        "Some (ErrGraphReturned 503 ''busy'')" "[]"]
    by (simp add: busyThrice_def nextWait_def sleepBefore_def maxRetryWait_def eval_nat_numeral)
  also have "\<dots> = sendLoop busyThrice ?u ?p 3 4000000000
      (Some (ErrGraphReturned 503 ''busy'')) [1000000000, 2000000000]"
    using C5_response_classification [OF m2 t, of ?p 503 "''busy''" 2000000000
        "Some (ErrGraphReturned 503 ''busy'')" "[1000000000]"]
    by (simp add: busyThrice_def nextWait_def sleepBefore_def maxRetryWait_def eval_nat_numeral)
  also have "\<dots> = \<lparr>returned = None, slept = [1000000000, 2000000000, 4000000000],
      requests = 4\<rparr>"
    using C5_response_classification [OF m3 t, of ?p 202 "[]" 4000000000
        "Some (ErrGraphReturned 503 ''busy'')" "[1000000000, 2000000000]"]
    by (simp add: busyThrice_def nextWait_def sleepBefore_def maxRetryWait_def)
  finally have r3: "SendMail exampleClient busyThrice [''ops@example.org''] ''subject'' ''body'' =
      \<lparr>returned = None, slept = [1000000000, 2000000000, 4000000000], requests = 4\<rparr>"
    by (simp add: send)
  show ?thesis using r1 r2 r3 by simp
qed

text \<open>
  C9 (configured and valid), as amended. \<open>IsConfigured\<close> is true exactly when the five
  fields are non-empty, and \<open>ValidateConfig\<close> returns no error exactly when
  \<open>IsConfigured\<close> is true: it does not parse the recipients. A recipients string that
  parses to no address is refused later, by \<open>SendMail\<close>, before any request is made.
  The configuration \<open>commaConfig\<close>, whose recipients are a single comma, is accepted by
  \<open>ValidateConfig\<close> although its recipients parse to no address.
\<close>

theorem C9_configured_and_valid:
  "IsConfigured conf =
     (TenantID conf \<noteq> [] \<and> ClientID conf \<noteq> [] \<and> ClientSecret conf \<noteq> [] \<and>
      FromAddress conf \<noteq> [] \<and> Recipients conf \<noteq> [])
   \<and> (ValidateConfig conf = None) = IsConfigured conf
   \<and> (ParseRecipients (Recipients conf) = [] \<longrightarrow>
        SendMail c net (ParseRecipients (Recipients conf)) subject body =
          \<lparr>returned = Some ErrNoRecipients, slept = [], requests = 0\<rparr>)"
  by (auto simp: IsConfigured_def ValidateConfig_def SendMail_def)

theorem C9_counterexample:
  "ValidateConfig commaConfig = None \<and> IsConfigured commaConfig
   \<and> ParseRecipients (Recipients commaConfig) = []"
  by (simp add: ValidateConfig_def IsConfigured_def commaConfig_def ParseRecipients_def
      TrimSpace_def trimLeading.simps spaceRunes_def)

theorem C9_configured_and_valid_witness:
  "IsConfigured commaConfig \<and> ValidateConfig commaConfig = None
   \<and> ParseRecipients (Recipients commaConfig) = []
   \<and> SendMail exampleClient always503 (ParseRecipients (Recipients commaConfig))
        ''subject'' ''body'' =
      \<lparr>returned = Some ErrNoRecipients, slept = [], requests = 0\<rparr>"
proof -
  have p: "ParseRecipients (Recipients commaConfig) = []"
    by (simp add: commaConfig_def ParseRecipients_def TrimSpace_def trimLeading.simps
        spaceRunes_def)
  have c: "IsConfigured commaConfig"
    by (simp add: IsConfigured_def commaConfig_def)
  show ?thesis
    using p c C9_configured_and_valid [of commaConfig exampleClient always503
        "''subject''" "''body''"]
    by simp
qed

section \<open>Properties of one check of the secret expiry monitor\<close>

declare decimal.simps [simp del]





























lemma daysLeftOf_rounds_up:
  "daysLeftOf (171 * day - 1) = 171 \<and> (171 * day - 1) div day = 170"
  by code_simp







text \<open>
  The scan selects the earliest of the end-dates that parse, provided none of them is the
  zero time; and a check whose lookup succeeds caches what \<open>expiryInfoOf\<close> computes from
  the records, which is the condition "no password credentials found" when no end-date
  parses.
\<close>

lemma scanCredentials_earliest:
  assumes "0 \<notin> set (endDates parse creds)"
  shows "scanCredentials parse creds e =
           (if e = 0
            then (if endDates parse creds = [] then 0 else Min (set (endDates parse creds)))
            else Min (insert e (set (endDates parse creds))))"
  using assms
proof (induction creds arbitrary: e)
  case Nil
  then show ?case by simp
next
  case (Cons cred creds)
  show ?case
  proof (cases "EndDateTime cred = [] \<or> parse (EndDateTime cred) = None")
    case True
    then have "endDates parse (cred # creds) = endDates parse creds"
      and "scanCredentials parse (cred # creds) e = scanCredentials parse creds e"
      by auto
    then show ?thesis using Cons by simp
  next
    case False
    then obtain x where x: "parse (EndDateTime cred) = Some x" and ne: "EndDateTime cred \<noteq> []"
      by auto
    have ds: "endDates parse (cred # creds) = x # endDates parse creds"
      using x ne by simp
    have x0: "x \<noteq> 0" and rest: "0 \<notin> set (endDates parse creds)"
      using Cons.prems ds by auto
    have fin: "finite (set (endDates parse creds))" by simp
    show ?thesis
    proof (cases "e = 0 \<or> x < e")
      case True
      then have "scanCredentials parse (cred # creds) e = scanCredentials parse creds x"
        using x ne by (simp add: IsZero_def Before_def)
      also have "\<dots> = Min (insert x (set (endDates parse creds)))"
        using Cons.IH [OF rest, of x] x0 by simp
      finally have r: "scanCredentials parse (cred # creds) e =
          Min (insert x (set (endDates parse creds)))" .
      show ?thesis
      proof (cases "e = 0")
        case True
        then show ?thesis using r ds by simp
      next
        case False
        with True have "x < e" by simp
        then have "Min (insert e (insert x (set (endDates parse creds)))) =
            Min (insert x (set (endDates parse creds)))"
          using fin by (simp add: min_def)
        then show ?thesis using r ds False by simp
      qed
    next
      case False
      then have e0: "e \<noteq> 0" and le: "e \<le> x" by auto
      have "scanCredentials parse (cred # creds) e = scanCredentials parse creds e"
        using False x ne by (simp add: IsZero_def Before_def)
      also have "\<dots> = Min (insert e (set (endDates parse creds)))"
        using Cons.IH [OF rest, of e] e0 by simp
      also have "\<dots> = Min (insert e (insert x (set (endDates parse creds))))"
      proof -
        have m: "Min (insert e (set (endDates parse creds))) \<le> x"
          using le fin by (meson Min_le finite_insert insertI1 order_trans)
        have "Min (insert x (insert e (set (endDates parse creds)))) =
            min x (Min (insert e (set (endDates parse creds))))"
          by (rule Min_insert) simp_all
        also have "\<dots> = Min (insert e (set (endDates parse creds)))"
          using m by (simp only: min_absorb2)
        finally show ?thesis by (simp only: insert_commute)
      qed
      finally show ?thesis using ds e0 by simp
    qed
  qed
qed

lemma check_caches_lookup:
  assumes "cfg c = Some g"
    and "TenantID g \<noteq> []" and "ClientID g \<noteq> []" and "ClientSecret g \<noteq> []"
    and "tokenSource c = None"
    and "Token w g = Inr token" and "RequestError w = None"
    and "Get w (ClientID g) token = Inr (200, body)"
    and "Unmarshal w body = Inr creds"
  shows "cachedInfo (check w c) = expiryInfoOf w creds \<and> lastCheck (check w c) = NowAfter w"
  using assms
  by (simp add: check_def fetchExpiryInfo_def GetTokenSource_def Let_def)

lemma expiryInfoOf_no_end_dates:
  assumes "endDates (Parse w) creds = []"
  shows "expiryInfoOf w creds = noInfo\<lparr>Error := ''no password credentials found''\<rparr>"
proof -
  have "0 \<notin> set (endDates (Parse w) creds)" using assms by simp
  then have "scanCredentials (Parse w) creds 0 = 0"
    using assms by (simp add: scanCredentials_earliest)
  then show ?thesis by (simp add: expiryInfoOf_def IsZero_def)
qed

lemma expiryInfoOf_earliest:
  assumes "0 \<notin> set (endDates (Parse w) creds)" and "endDates (Parse w) creds \<noteq> []"
  shows "ExpiresAt (expiryInfoOf w creds) = Format w (Min (set (endDates (Parse w) creds)))
         \<and> DaysLeft (expiryInfoOf w creds) =
             daysLeftOf (Sub (Min (set (endDates (Parse w) creds))) (Now w))
         \<and> Error (expiryInfoOf w creds) = []"
proof -
  have s: "scanCredentials (Parse w) creds 0 = Min (set (endDates (Parse w) creds))"
    using assms by (simp add: scanCredentials_earliest)
  have "Min (set (endDates (Parse w) creds)) \<in> set (endDates (Parse w) creds)"
    using assms(2) by (intro Min_in) simp_all
  then have "Min (set (endDates (Parse w) creds)) \<noteq> 0"
    using assms(1) by metis
  then show ?thesis
    by (simp add: expiryInfoOf_def s IsZero_def Let_def)
qed

text \<open>
  C7 (earliest expiry). The loop uses the zero time for "no end-date seen yet", so an
  end-date that parses to the zero time is not kept, and it makes the loop forget the
  end-dates before it. With the records 2030-01-01, 0001-01-01T00:00:00Z and 2040-01-01,
  all three parse, and the check caches the expiry 2040-01-01: not the earliest end-date
  (the zero time), nor the earliest of the other two. With the one record
  0001-01-01T00:00:00Z, whose end-date parses, the check caches "no password credentials
  found". The clock of the example reads noon of January 1, 2026.
\<close>

theorem C7_zero_end_date_resets_scan:
  "endDates exampleParse
     [\<lparr>EndDateTime = ''2030-01-01T00:00:00Z''\<rparr>, \<lparr>EndDateTime = ''0001-01-01T00:00:00Z''\<rparr>,
      \<lparr>EndDateTime = ''2040-01-01T00:00:00Z''\<rparr>] =
     [daysBefore 2030 * day, 0, daysBefore 2040 * day]
   \<and> cachedInfo (check
        (exampleIdentity
           [''2030-01-01T00:00:00Z'', ''0001-01-01T00:00:00Z'', ''2040-01-01T00:00:00Z''])
        (NewSecretExpiryChecker (Some exampleConfig))) =
     \<lparr>ExpiresAt = ''2040-01-01T00:00:00Z'', ExpiresSoon = False, DaysLeft = 5112, Error = []\<rparr>
   \<and> endDates exampleParse [\<lparr>EndDateTime = ''0001-01-01T00:00:00Z''\<rparr>] = [0]
   \<and> cachedInfo (check (exampleIdentity [''0001-01-01T00:00:00Z''])
        (NewSecretExpiryChecker (Some exampleConfig))) =
     \<lparr>ExpiresAt = [], ExpiresSoon = False, DaysLeft = 0,
      Error = ''no password credentials found''\<rparr>"
  by code_simp

section \<open>Properties of \<open>Start\<close>, \<open>Stop\<close> and the background goroutine\<close>

text \<open>
  In both files \<open>Start\<close> on a running checker and \<open>Stop\<close> on a stopped one return at once
  and change no field. In the file whose \<open>Start\<close> makes the channels anew, no schedule
  whatever leads to a panic: the channel \<open>Stop\<close> closes is always a fresh one.
\<close>

lemma goto_fields [simp]:
  "life (goto tid p s) = life s" "closed (goto tid p s) = closed s"
  "made (goto tid p s) = made s" "threads (goto tid p s) = (threads s)[tid := p]"
  "trace (goto tid p s) = trace s"
  by (simp_all add: goto_def)

lemma observe_fields [simp]:
  "life (observe e s) = life s" "closed (observe e s) = closed s"
  "made (observe e s) = made s" "threads (observe e s) = threads s"
  "trace (observe e s) = trace s @ [e]"
  by (simp_all add: observe_def)

lemma channelsOk_goto [simp]: "channelsOk (goto tid p s) = channelsOk s"
  by (simp add: channelsOk_def)

lemma channelsOk_observe [simp]: "channelsOk (observe e s) = channelsOk s"
  by (simp add: channelsOk_def)

lemma no_panic_update:
  "Panicked \<notin> set xs \<Longrightarrow> p \<noteq> Panicked \<Longrightarrow> Panicked \<notin> set (xs[i := p])"
  using set_update_subset_insert [of xs i p] by auto

lemma afterCheck_no_panic [simp]: "afterCheck k \<noteq> Panicked"
  by (cases k) simp_all

lemma closeStop_Waiting:
  assumes "channelsOk s" and "running (life s)"
  shows "\<exists>ch. stopCh (life s) = Some ch \<and>
           closeStop tid s = Inr (s\<lparr>closed := ch # closed s, life := (life s)\<lparr>running := False\<rparr>\<rparr>)
           \<and> channelsOk (s\<lparr>closed := ch # closed s, life := (life s)\<lparr>running := False\<rparr>\<rparr>)"
  using assms by (auto simp: channelsOk_def closeStop_def)

lemma step_Waiting_safe:
  assumes ok: "channelsOk s" and st: "step Waiting tid sel s = Some s'"
  shows "channelsOk s' \<and> Panicked \<notin> set (threads s')"
proof -
  have np: "Panicked \<notin> set (threads s)" and len: "tid < length (threads s)"
    using st by (auto simp: step_def split: if_splits)
  show ?thesis
  proof (cases "threads s ! tid")
    case StartEntry
    show ?thesis
    proof (cases "running (life s)")
      case True
      then show ?thesis
        using st StartEntry np len ok by (auto simp: step_def no_panic_update)
    next
      case False
      then have s': "s' = goto tid (CheckEntry ByStart)
          (s\<lparr>life := (life s)\<lparr>stopCh := Some (made s), doneCh := Some (made s + 1),
                                running := True\<rparr>, made := made s + 2\<rparr>)"
        using st StartEntry np len by (auto simp: step_def)
      have "channelsOk (s\<lparr>life := (life s)\<lparr>stopCh := Some (made s),
          doneCh := Some (made s + 1), running := True\<rparr>, made := made s + 2\<rparr>)"
        using ok by (auto simp: channelsOk_def)
      then show ?thesis
        using np unfolding s' by (simp add: no_panic_update)
    qed
  next
    case StartSpawn
    then show ?thesis
      using st np len ok by (auto simp: step_def no_panic_update channelsOk_def dest: in_set_butlastD)
  next
    case StopEntry
    show ?thesis
    proof (cases "running (life s)")
      case False
      then show ?thesis
        using st StopEntry np len ok by (auto simp: step_def no_panic_update)
    next
      case True
      obtain ch where c: "closeStop tid s =
          Inr (s\<lparr>closed := ch # closed s, life := (life s)\<lparr>running := False\<rparr>\<rparr>)"
        and ok': "channelsOk (s\<lparr>closed := ch # closed s, life := (life s)\<lparr>running := False\<rparr>\<rparr>)"
        using closeStop_Waiting [OF ok True] by blast
      show ?thesis
        using st StopEntry np len True c ok'
        by (auto simp: step_def no_panic_update split: option.splits if_splits)
    qed
  next
    case (StopReceive ch)
    then show ?thesis using st np len ok by (auto simp: step_def no_panic_update)
  next
    case (StopWait ch)
    then show ?thesis using st np len by (auto simp: step_def)
  next
    case StopWoken
    then show ?thesis using st np len ok by (auto simp: step_def no_panic_update)
  next
    case UpdateEntry
    then show ?thesis using st np len ok by (auto simp: step_def no_panic_update)
  next
    case LoopEnter
    then show ?thesis using st np len ok by (auto simp: step_def no_panic_update)
  next
    case (LoopBlocked och)
    then show ?thesis
      using st np len ok
      by (auto simp: step_def no_panic_update split: choice.splits option.splits if_splits)
  next
    case (CheckEntry k)
    then have s': "s' = goto tid (CheckWrite k (doneCh (life s)))
        (s\<lparr>life := (life s)\<lparr>isChecking := True\<rparr>\<rparr>)"
      using st np len by (auto simp: step_def)
    have "channelsOk (s\<lparr>life := (life s)\<lparr>isChecking := True\<rparr>\<rparr>)"
      using ok by (auto simp: channelsOk_def)
    then show ?thesis using np unfolding s' by (simp add: no_panic_update)
  next
    case (CheckWrite k d)
    then show ?thesis using st np len ok by (auto simp: step_def no_panic_update)
  next
    case (CheckDefer k d)
    then have s': "s' = goto tid (CheckSignal k d) (s\<lparr>life := (life s)\<lparr>isChecking := False\<rparr>\<rparr>)"
      using st np len by (auto simp: step_def)
    have "channelsOk (s\<lparr>life := (life s)\<lparr>isChecking := False\<rparr>\<rparr>)"
      using ok by (auto simp: channelsOk_def)
    then show ?thesis using np unfolding s' by (simp add: no_panic_update)
  next
    case (CheckSignal k d)
    then show ?thesis
      using st np len ok
      by (auto simp: step_def no_panic_update split: option.splits)
  next
    case Returned
    then show ?thesis using st np len by (auto simp: step_def)
  next
    case Panicked
    then show ?thesis using st np len by (auto simp: step_def)
  qed
qed

lemma run_Waiting_never_panics:
  "channelsOk s \<Longrightarrow> Panicked \<notin> set (threads s) \<Longrightarrow> run Waiting sched s = Some s' \<Longrightarrow>
     channelsOk s' \<and> Panicked \<notin> set (threads s')"
proof (induction sched arbitrary: s)
  case Nil
  then show ?case by simp
next
  case (Cons x sched)
  obtain tid sel where x: "x = (tid, sel)" by (cases x)
  from Cons.prems(3) obtain s1 where s1: "step Waiting tid sel s = Some s1"
    and r: "run Waiting sched s1 = Some s'"
    unfolding x by (auto split: option.splits)
  have "channelsOk s1 \<and> Panicked \<notin> set (threads s1)"
    using step_Waiting_safe [OF Cons.prems(1) s1] .
  then show ?case using Cons.IH [OF _ _ r] by simp
qed

lemma newSystem_Waiting_ok:
  "Panicked \<notin> set calls \<Longrightarrow>
     channelsOk (newSystem Waiting calls) \<and> Panicked \<notin> set (threads (newSystem Waiting calls))"
  by (simp add: channelsOk_def newSystem_def)

lemma Start_when_running:
  assumes "tid < length (threads s)" and "Panicked \<notin> set (threads s)"
    and "threads s ! tid = StartEntry" and "running (life s)"
  shows "step v tid sel s = Some (goto tid Returned s)"
  using assms by (simp add: step_def)

lemma Stop_when_stopped:
  assumes "tid < length (threads s)" and "Panicked \<notin> set (threads s)"
    and "threads s ! tid = StopEntry" and "\<not> running (life s)"
  shows "step v tid sel s = Some (observe (StopReturned tid) (goto tid Returned s))"
  using assms by (simp add: step_def)

text \<open>
  C3 (graceful stop). In \<open>graph_expiry.go\<close>, \<open>Stop\<close> does not wait. \<open>Start\<close> has returned
  (thread 0), the ticker has fired and the background goroutine (thread 2) is inside
  \<open>check\<close>, before the locked region that stores the result, when \<open>Stop\<close> is called
  (thread 1): \<open>Stop\<close> returns in its first step, and the check stores \<open>cachedInfo\<close> and
  \<open>lastCheck\<close> after that. The trace is: the store of the first check, the return of
  \<open>Stop\<close>, the store of the check that was in progress.
\<close>

theorem C3_stop_returns_before_write:
  "map_option threads (run GraphExpiry (checkInFlight GraphExpiry)
       (newSystem GraphExpiry [StartEntry, StopEntry])) =
     Some [Returned, StopEntry, CheckWrite ByLoop None]
   \<and> map_option trace (run GraphExpiry (checkInFlight GraphExpiry @ [(1, Tick), (2, Tick)])
       (newSystem GraphExpiry [StartEntry, StopEntry])) =
     Some [CacheWrite 0, StopReturned 1, CacheWrite 2]"
  by code_simp

text \<open>
  In the other file \<open>Stop\<close> is parked in the receive from \<open>doneCh\<close> in the same situation,
  cannot move, and returns after the store. It does not wait when a second check, by
  \<open>UpdateConfig\<close> (thread 1), has cleared \<open>checking\<close> while the check of the background
  goroutine (thread 3) is still in progress.
\<close>

lemma Waiting_stop_waits_for_the_check:
  "map_option threads (run Waiting (checkInFlight Waiting @ [(1, Tick), (1, Tick)])
       (newSystem Waiting [StartEntry, StopEntry])) =
     Some [Returned, StopWait 1, CheckWrite ByLoop (Some 1)]
   \<and> run Waiting (checkInFlight Waiting @ [(1, Tick), (1, Tick), (1, Tick)])
       (newSystem Waiting [StartEntry, StopEntry]) = None
   \<and> map_option trace
       (run Waiting (checkInFlight Waiting @ [(1, Tick), (1, Tick), (2, Tick), (2, Tick), (2, Tick), (1, Tick)])
          (newSystem Waiting [StartEntry, StopEntry])) =
     Some [CacheWrite 0, CacheWrite 2, StopReturned 1]"
  by code_simp

lemma Waiting_stop_misses_a_second_check:
  "map_option trace
     (run Waiting
        (startAlone Waiting 0 @ [(3, Tick), (3, Tick), (3, Tick)] @
         [(1, Tick), (1, Tick), (1, Tick), (1, Tick), (1, Tick)] @ [(2, Tick), (3, Tick)])
        (newSystem Waiting [StartEntry, UpdateEntry, StopEntry])) =
     Some [CacheWrite 0, CacheWrite 1, StopReturned 2, CacheWrite 3]"
  by code_simp

text \<open>
  C8 (lifecycle). In \<open>graph_expiry.go\<close> the checker does not survive a second cycle. After
  \<open>Start\<close>, \<open>Stop\<close>, \<open>Start\<close>, each run alone, the only channel \<open>stopCh\<close> is closed: the
  background goroutine of the second \<open>Start\<close> (thread 5) selects on the closed channel and
  can end before the ticker has fired once, and the second \<open>Stop\<close> (thread 3), which finds
  \<open>running\<close> set, closes the closed channel and panics.
\<close>

theorem C8_second_stop_panics:
  "map_option threads (run GraphExpiry (twoCycles GraphExpiry)
       (newSystem GraphExpiry [StartEntry, StopEntry, StartEntry, StopEntry])) =
     Some [Returned, Returned, Returned, StopEntry, Returned, LoopBlocked (Some 0)]
   \<and> map_option closed (run GraphExpiry (twoCycles GraphExpiry)
       (newSystem GraphExpiry [StartEntry, StopEntry, StartEntry, StopEntry])) = Some [0]
   \<and> map_option threads (run GraphExpiry (twoCycles GraphExpiry @ [(5, StopCase)])
       (newSystem GraphExpiry [StartEntry, StopEntry, StartEntry, StopEntry])) =
     Some [Returned, Returned, Returned, StopEntry, Returned, Returned]
   \<and> map_option threads (run GraphExpiry (twoCycles GraphExpiry @ [(3, Tick)])
       (newSystem GraphExpiry [StartEntry, StopEntry, StartEntry, StopEntry])) =
     Some [Returned, Returned, Returned, Panicked, Returned, LoopBlocked (Some 0)]"
  by code_simp

text \<open>
  In the other file the second \<open>Start\<close> makes channel 2: its goroutine waits on an open
  channel and cannot take the stop case, the next tick makes it check, and the second
  \<open>Stop\<close> closes channel 2 and returns.
\<close>

lemma Waiting_survives_two_cycles:
  "map_option threads (run Waiting (twoCycles Waiting)
       (newSystem Waiting [StartEntry, StopEntry, StartEntry, StopEntry])) =
     Some [Returned, Returned, Returned, StopEntry, Returned, LoopBlocked (Some 2)]
   \<and> map_option closed (run Waiting (twoCycles Waiting)
       (newSystem Waiting [StartEntry, StopEntry, StartEntry, StopEntry])) = Some [0]
   \<and> run Waiting (twoCycles Waiting @ [(5, StopCase)])
       (newSystem Waiting [StartEntry, StopEntry, StartEntry, StopEntry]) = None
   \<and> map_option trace (run Waiting (twoCycles Waiting @ [(5, Tick), (5, Tick), (5, Tick)])
       (newSystem Waiting [StartEntry, StopEntry, StartEntry, StopEntry])) =
     Some [CacheWrite 0, StopReturned 1, CacheWrite 2, CacheWrite 5]
   \<and> map_option threads (run Waiting (twoCycles Waiting @ [(3, Tick), (5, StopCase)])
       (newSystem Waiting [StartEntry, StopEntry, StartEntry, StopEntry])) =
     Some [Returned, Returned, Returned, Returned, Returned, Returned]"
  by code_simp

end
